theory Spec2Isabelle
  imports Main "HOL-Library.AList" "HOL-Library.Sublist"
begin

section \<open>JavaScript values\<close>

text \<open>
  Values decoded from JSON, as the harness sees them after \<open>JSON.parse\<close> or
  \<open>response.json()\<close>. An object is an association list from keys to values.
  Numbers are modelled as integers (HTTP status codes and ABCI result codes are);
  strings are lists of 8-bit code units. A missing property (\<open>undefined\<close>) is
  \<open>None\<close> at the place of the lookup.
\<close>

datatype json =
    JNull
  | JBool bool
  | JNum int
  | JStr string
  | JArr "json list"
  | JObj "(string \<times> json) list"

text \<open>Property read \<open>v.k\<close> on a value that is neither \<open>null\<close> nor \<open>undefined\<close>.
  Only keys that no prototype defines are read by the code (\<open>method\<close>, \<open>params\<close>,
  \<open>path\<close>, \<open>id\<close>, \<open>result\<close>, \<open>code\<close>, ...), so a primitive or an array has none of them.\<close>

fun getProp :: "json \<Rightarrow> string \<Rightarrow> json option" where
  "getProp (JObj kvs) k = map_of kvs k"
| "getProp _ k = None"

text \<open>JavaScript truthiness (\<open>if (v)\<close>, \<open>!v\<close>, \<open>a && b\<close>, \<open>a || b\<close>).\<close>

fun truthy :: "json \<Rightarrow> bool" where
  "truthy JNull = False"
| "truthy (JBool b) = b"
| "truthy (JNum n) = (n \<noteq> 0)"
| "truthy (JStr s) = (s \<noteq> [])"
| "truthy (JArr _) = True"
| "truthy (JObj _) = True"

fun truthyO :: "json option \<Rightarrow> bool" where
  "truthyO None = False"
| "truthyO (Some v) = truthy v"

text \<open>\<open>typeof v === 'object'\<close>: true of \<open>null\<close>, arrays and objects.\<close>

fun typeofObject :: "json \<Rightarrow> bool" where
  "typeofObject JNull = True"
| "typeofObject (JArr _) = True"
| "typeofObject (JObj _) = True"
| "typeofObject _ = False"

text \<open>Strict equality \<open>a === b\<close> of two values that come from two different parses:
  primitives compare by value, two objects or arrays are never the same reference,
  and \<open>undefined === undefined\<close>.\<close>

fun strictEq :: "json option \<Rightarrow> json option \<Rightarrow> bool" where
  "strictEq None None = True"
| "strictEq (Some JNull) (Some JNull) = True"
| "strictEq (Some (JBool a)) (Some (JBool b)) = (a = b)"
| "strictEq (Some (JNum a)) (Some (JNum b)) = (a = b)"
| "strictEq (Some (JStr a)) (Some (JStr b)) = (a = b)"
| "strictEq _ _ = False"

text \<open>\<open>String.prototype.includes\<close>: the pattern occurs as a contiguous piece.\<close>

fun str_includes :: "string \<Rightarrow> string \<Rightarrow> bool" where
  "str_includes [] pat = (pat = [])"
| "str_includes (c # cs) pat = (prefix pat (c # cs) \<or> str_includes cs pat)"

section \<open>The monitor registry (class ApiMonitor)\<close>

text \<open>\<open>MonitorOptions\<close> after the defaults were merged in. Only the truth value of the
  flags is ever read, so an absent flag is \<open>False\<close>; an absent timeout is \<open>None\<close>.\<close>

record MonitorOptions =
  oneTime :: bool
  verbose :: bool
  timeout :: "int option"
  silentTimeout :: bool
  partialMatch :: bool

text \<open>The empty options object \<open>{}\<close> used when a monitor has no stored options.\<close>

definition noOptions :: MonitorOptions where
  "noOptions = \<lparr>oneTime = False, verbose = False, timeout = None,
                 silentTimeout = False, partialMatch = False\<rparr>"

text \<open>A thrown \<open>Error\<close> object: its message and the \<open>isTimeout\<close> mark the monitor adds.\<close>

record jsError =
  message :: string
  isTimeout :: bool

text \<open>What the harness reads from a Playwright \<open>Request\<close>.\<close>

record request =
  req_url :: string
  req_method :: string
  req_postData :: "string option"

text \<open>What the harness reads from a Playwright \<open>Response\<close>: \<open>resp_json\<close> and
  \<open>resp_text\<close> are the outcomes of \<open>await response.json()\<close> and
  \<open>await response.text()\<close>, \<open>None\<close> when the call rejects.\<close>

record response =
  resp_url :: string
  resp_status :: int
  resp_request :: request
  resp_json :: "json option"
  resp_text :: "string option"

datatype settlement = Fulfilled response | Rejected jsError

text \<open>\<open>PromiseController\<close>. The promise object is represented by \<open>serial\<close>, its
  identity, and \<open>promiseState\<close>, which a promise fixes at the first call of
  \<open>resolve\<close> or \<open>reject\<close>.\<close>

record PromiseController =
  serial :: nat
  promiseState :: "settlement option"
  timeoutId :: "nat option"
  isResolved :: bool
  isRejected :: bool

record capturedRequest =
  cq_url :: string
  cq_method :: string
  cq_timestamp :: int
  cq_rpc :: "json option"
  cq_body :: "json option"

record capturedResponse =
  cs_url :: string
  cs_status :: int
  cs_timestamp :: int
  cs_rpc :: "(json \<times> json) option"
  cs_body :: "json option"

text \<open>The fields of \<open>ApiMonitor\<close>. A JavaScript \<open>Map\<close> keeps insertion order, so each
  map is an association list handled with \<open>AList.update\<close> (replace in place, else
  append) and \<open>AList.delete\<close>. \<open>timers\<close> holds the pending \<open>setTimeout\<close> callbacks of
  the monitors: timer id, monitor id and the options the callback closed over.
  \<open>settleLog\<close> records every call of a controller's \<open>resolve\<close> or \<open>reject\<close>.\<close>

record ApiMonitor =
  monitorPromises :: "(string \<times> PromiseController) list"
  monitorStartTimes :: "(string \<times> int) list"
  monitorPaths :: "(string \<times> string) list"
  monitorOptions :: "(string \<times> MonitorOptions) list"
  capturedRequests :: "(string \<times> capturedRequest list) list"
  capturedResponses :: "(string \<times> capturedResponse list) list"
  monitorMethods :: "(string \<times> string) list"
  timers :: "(nat \<times> string \<times> MonitorOptions) list"
  nextTimer :: nat
  nextSerial :: nat
  settleLog :: "(nat \<times> settlement) list"

text \<open>The constructor: both global logs start empty under the key \<open>all\<close>.\<close>

definition newApiMonitor :: ApiMonitor where
  "newApiMonitor =
     \<lparr>monitorPromises = [], monitorStartTimes = [], monitorPaths = [], monitorOptions = [],
      capturedRequests = [(''all'', [])], capturedResponses = [(''all'', [])],
      monitorMethods = [], timers = [], nextTimer = 0, nextSerial = 0, settleLog = []\<rparr>"

subsection \<open>pathMatches\<close>

definition pathMatches :: "string \<Rightarrow> string \<Rightarrow> MonitorOptions \<Rightarrow> bool" where
  "pathMatches targetPath monitorPath options =
     (if targetPath = [] \<or> monitorPath = [] then False
      else if partialMatch options then str_includes targetPath monitorPath
      else targetPath = monitorPath)"

text \<open>The same method called with \<open>params.path\<close> of a request body, which need not be
  a string. \<open>None\<close> is the \<open>TypeError\<close> of calling \<open>includes\<close> on a value that has no
  such method; an array has one (membership).\<close>

fun pathMatchesAny :: "json \<Rightarrow> string \<Rightarrow> MonitorOptions \<Rightarrow> bool option" where
  "pathMatchesAny (JStr s) monitorPath options = Some (pathMatches s monitorPath options)"
| "pathMatchesAny v monitorPath options =
     (if \<not> truthy v \<or> monitorPath = [] then Some False
      else if partialMatch options then
        (case v of JArr xs \<Rightarrow> Some (JStr monitorPath \<in> set xs) | _ \<Rightarrow> None)
      else Some False)"

text \<open>\<open>paramPath && body.params && (body.params.path ? pathMatches(...) : false)\<close>.\<close>

definition rpcPathMatches :: "string \<Rightarrow> json \<Rightarrow> MonitorOptions \<Rightarrow> bool option" where
  "rpcPathMatches paramPath body options =
     (if paramPath = [] then Some False
      else case getProp body ''params'' of
        None \<Rightarrow> Some False
      | Some params \<Rightarrow>
          if \<not> truthy params then Some False
          else case getProp params ''path'' of
            None \<Rightarrow> Some False
          | Some p \<Rightarrow> if truthy p then pathMatchesAny p paramPath options else Some False)"

text \<open>\<open>expectedMethod && body.method === expectedMethod\<close>.\<close>

definition rpcMethodMatches :: "string option \<Rightarrow> json \<Rightarrow> bool" where
  "rpcMethodMatches expectedMethod body =
     (case expectedMethod of
        None \<Rightarrow> False
      | Some m \<Rightarrow> m \<noteq> [] \<and> getProp body ''method'' = Some (JStr m))"

definition getOptions :: "ApiMonitor \<Rightarrow> string \<Rightarrow> MonitorOptions" where
  "getOptions reg monitorId =
     (case map_of (monitorOptions reg) monitorId of None \<Rightarrow> noOptions | Some opts \<Rightarrow> opts)"

subsection \<open>The request listener\<close>

text \<open>\<open>const l = capturedRequests.get(id) || []; l.push(r); capturedRequests.set(id, l)\<close>.\<close>

definition pushRequest :: "string \<Rightarrow> capturedRequest \<Rightarrow> ApiMonitor \<Rightarrow> ApiMonitor" where
  "pushRequest monitorId r reg =
     reg\<lparr>capturedRequests :=
       AList.update monitorId
         ((case map_of (capturedRequests reg) monitorId of None \<Rightarrow> [] | Some l \<Rightarrow> l) @ [r])
         (capturedRequests reg)\<rparr>"

text \<open>The loop over \<open>monitorPaths.entries()\<close> for a non-RPC request: plain URL matching.\<close>

fun urlRequestLoop ::
  "request \<Rightarrow> int \<Rightarrow> json option \<Rightarrow> (string \<times> string) list \<Rightarrow> ApiMonitor \<Rightarrow> ApiMonitor" where
  "urlRequestLoop req ts body [] reg = reg"
| "urlRequestLoop req ts body ((monitorId, path) # rest) reg =
     urlRequestLoop req ts body rest
       (if pathMatches (req_url req) path (getOptions reg monitorId)
        then pushRequest monitorId
               \<lparr>cq_url = req_url req, cq_method = req_method req, cq_timestamp = ts,
                cq_rpc = None, cq_body = body\<rparr> reg
        else reg)"

text \<open>The loop for an RPC request: method and parameter path. A \<open>TypeError\<close> from
  \<open>pathMatches\<close> leaves the loop (the surrounding \<open>catch\<close> ignores it).\<close>

fun rpcRequestLoop ::
  "request \<Rightarrow> int \<Rightarrow> json \<Rightarrow> (string \<times> string) list \<Rightarrow> ApiMonitor \<Rightarrow> ApiMonitor" where
  "rpcRequestLoop req ts jsonBody [] reg = reg"
| "rpcRequestLoop req ts jsonBody ((monitorId, paramPath) # rest) reg =
     (case rpcPathMatches paramPath jsonBody (getOptions reg monitorId) of
        None \<Rightarrow> reg
      | Some pm \<Rightarrow>
          rpcRequestLoop req ts jsonBody rest
            (if rpcMethodMatches (map_of (monitorMethods reg) monitorId) jsonBody \<and> pm
             then pushRequest monitorId
                    \<lparr>cq_url = req_url req, cq_method = req_method req, cq_timestamp = ts,
                     cq_rpc = Some jsonBody, cq_body = Some jsonBody\<rparr> reg
             else reg))"

text \<open>\<open>jsonBody.jsonrpc === '2.0' || (jsonBody.method && typeof jsonBody.params === 'object')\<close>.\<close>

definition isRpcRequest :: "json \<Rightarrow> bool" where
  "isRpcRequest jsonBody =
     (getProp jsonBody ''jsonrpc'' = Some (JStr ''2.0'') \<or>
      (truthyO (getProp jsonBody ''method'') \<and>
       (case getProp jsonBody ''params'' of None \<Rightarrow> False | Some p \<Rightarrow> typeofObject p)))"

text \<open>The handler of \<open>page.on('request')\<close>. \<open>JSON_parse\<close> is the built-in parser
  (\<open>None\<close> when it throws) and \<open>ts\<close> the value of \<open>Date.now()\<close>. A body that parses to
  \<open>null\<close> makes the property read throw, which the same \<open>catch\<close> ignores.\<close>

definition onRequest ::
  "(string \<Rightarrow> json option) \<Rightarrow> int \<Rightarrow> request \<Rightarrow> ApiMonitor \<Rightarrow> ApiMonitor" where
  "onRequest JSON_parse ts req reg =
     (let reg1 = pushRequest ''all''
                   \<lparr>cq_url = req_url req, cq_method = req_method req, cq_timestamp = ts,
                    cq_rpc = None, cq_body = None\<rparr> reg
      in if req_method req = ''POST'' then
           (case req_postData req of
              None \<Rightarrow> reg1
            | Some postData \<Rightarrow>
                if postData = [] then reg1
                else case JSON_parse postData of
                  None \<Rightarrow> reg1
                | Some jsonBody \<Rightarrow>
                    if jsonBody = JNull then reg1
                    else if isRpcRequest jsonBody
                    then rpcRequestLoop req ts jsonBody (monitorPaths reg1) reg1
                    else urlRequestLoop req ts (Some jsonBody) (monitorPaths reg1) reg1)
         else urlRequestLoop req ts None (monitorPaths reg1) reg1)"

subsection \<open>Settling a controller\<close>

text \<open>Numbers inside template literals: decimal digits, a minus sign for negatives.\<close>

fun showNat :: "nat \<Rightarrow> string" where
  "showNat n =
     (if n < 10 then [''0123456789'' ! n]
      else showNat (n div 10) @ [''0123456789'' ! (n mod 10)])"

declare showNat.simps [simp del]

definition showInt :: "int \<Rightarrow> string" where
  "showInt i = (if i < 0 then CHR ''-'' # showNat (nat (- i)) else showNat (nat i))"

definition showTimeout :: "int option \<Rightarrow> string" where
  "showTimeout t = (case t of None \<Rightarrow> ''undefined'' | Some n \<Rightarrow> showInt n)"

text \<open>
  Every callback settles a controller in the same way:
  \<open>const c = monitorPromises.get(id);
    if (c && !c.isResolved && !c.isRejected) { c.isResolved = true; c.resolve(response); }\<close>
  (and the same with \<open>isRejected\<close> and \<open>reject\<close>).
\<close>

definition settlePromise :: "settlement \<Rightarrow> PromiseController \<Rightarrow> PromiseController" where
  "settlePromise s c =
     c\<lparr>promiseState := (case promiseState c of None \<Rightarrow> Some s | Some old \<Rightarrow> Some old)\<rparr>"

definition resolveIfPending :: "string \<Rightarrow> response \<Rightarrow> ApiMonitor \<Rightarrow> ApiMonitor" where
  "resolveIfPending monitorId r reg =
     (case map_of (monitorPromises reg) monitorId of
        None \<Rightarrow> reg
      | Some c \<Rightarrow>
          if isResolved c \<or> isRejected c then reg
          else reg\<lparr>monitorPromises :=
                     AList.update monitorId (settlePromise (Fulfilled r) (c\<lparr>isResolved := True\<rparr>))
                       (monitorPromises reg),
                   settleLog := settleLog reg @ [(serial c, Fulfilled r)]\<rparr>)"

definition rejectIfPending :: "string \<Rightarrow> jsError \<Rightarrow> ApiMonitor \<Rightarrow> ApiMonitor" where
  "rejectIfPending monitorId e reg =
     (case map_of (monitorPromises reg) monitorId of
        None \<Rightarrow> reg
      | Some c \<Rightarrow>
          if isResolved c \<or> isRejected c then reg
          else reg\<lparr>monitorPromises :=
                     AList.update monitorId (settlePromise (Rejected e) (c\<lparr>isRejected := True\<rparr>))
                       (monitorPromises reg),
                   settleLog := settleLog reg @ [(serial c, Rejected e)]\<rparr>)"

subsection \<open>The response listener\<close>

definition pushResponse :: "string \<Rightarrow> capturedResponse \<Rightarrow> ApiMonitor \<Rightarrow> ApiMonitor" where
  "pushResponse monitorId r reg =
     reg\<lparr>capturedResponses :=
       AList.update monitorId
         ((case map_of (capturedResponses reg) monitorId of None \<Rightarrow> [] | Some l \<Rightarrow> l) @ [r])
         (capturedResponses reg)\<rparr>"

text \<open>What every matching branch does: record the response for the monitor, then, for
  a one-time monitor, resolve its promise if it is still pending.\<close>

definition captureResponse ::
  "string \<Rightarrow> capturedResponse \<Rightarrow> response \<Rightarrow> ApiMonitor \<Rightarrow> ApiMonitor" where
  "captureResponse monitorId r resp reg =
     (let options = getOptions reg monitorId;
          reg1 = pushResponse monitorId r reg
      in if oneTime options then resolveIfPending monitorId resp reg1 else reg1)"

fun urlResponseLoop ::
  "response \<Rightarrow> int \<Rightarrow> json option \<Rightarrow> (string \<times> string) list \<Rightarrow> ApiMonitor \<Rightarrow> ApiMonitor" where
  "urlResponseLoop resp ts body [] reg = reg"
| "urlResponseLoop resp ts body ((monitorId, path) # rest) reg =
     urlResponseLoop resp ts body rest
       (if pathMatches (resp_url resp) path (getOptions reg monitorId)
        then captureResponse monitorId
               \<lparr>cs_url = resp_url resp, cs_status = resp_status resp, cs_timestamp = ts,
                cs_rpc = None, cs_body = body\<rparr> resp reg
        else reg)"

fun rpcResponseLoop ::
  "response \<Rightarrow> int \<Rightarrow> json \<Rightarrow> json \<Rightarrow> (string \<times> string) list \<Rightarrow> ApiMonitor \<Rightarrow> ApiMonitor" where
  "rpcResponseLoop resp ts requestBody responseBody [] reg = reg"
| "rpcResponseLoop resp ts requestBody responseBody ((monitorId, paramPath) # rest) reg =
     (case rpcPathMatches paramPath requestBody (getOptions reg monitorId) of
        None \<Rightarrow> reg
      | Some pm \<Rightarrow>
          rpcResponseLoop resp ts requestBody responseBody rest
            (if rpcMethodMatches (map_of (monitorMethods reg) monitorId) requestBody \<and> pm
                \<and> strictEq (getProp responseBody ''id'') (getProp requestBody ''id'')
             then captureResponse monitorId
                    \<lparr>cs_url = resp_url resp, cs_status = resp_status resp, cs_timestamp = ts,
                     cs_rpc = Some (requestBody, responseBody), cs_body = Some responseBody\<rparr>
                    resp reg
             else reg))"

text \<open>The request body as the response handlers read it: \<open>postData\<close> parsed when it
  is a non-empty string, \<open>undefined\<close> when there is none or the parse throws.\<close>

definition parsedPostData :: "(string \<Rightarrow> json option) \<Rightarrow> request \<Rightarrow> json option" where
  "parsedPostData JSON_parse req =
     (case req_postData req of
        None \<Rightarrow> None
      | Some postData \<Rightarrow> if postData = [] then None else JSON_parse postData)"

text \<open>\<open>text.trim()\<close> is non-empty: some code unit is not white space.\<close>

definition isSpace :: "char \<Rightarrow> bool" where
  "isSpace c = (of_char c \<in> {9, 10, 11, 12, 13, 32, 160 :: nat})"

definition trimNonEmpty :: "string \<Rightarrow> bool" where
  "trimNonEmpty t = (\<exists>c \<in> set t. \<not> isSpace c)"

text \<open>The response body as the listener decodes it: \<open>response.json()\<close>, else the text
  parsed as JSON, else the text itself; \<open>undefined\<close> when nothing can be read.\<close>

definition listenerResponseBody :: "(string \<Rightarrow> json option) \<Rightarrow> response \<Rightarrow> json option" where
  "listenerResponseBody JSON_parse resp =
     (case resp_json resp of
        Some v \<Rightarrow> Some v
      | None \<Rightarrow>
          (case resp_text resp of
             None \<Rightarrow> None
           | Some text \<Rightarrow>
               if text \<noteq> [] \<and> trimNonEmpty text
               then (case JSON_parse text of None \<Rightarrow> Some (JStr text) | Some v \<Rightarrow> Some v)
               else None))"

text \<open>\<open>typeof body === 'object' && body !== null && typeof body.id !== 'undefined'\<close>.\<close>

definition isRpcResponse :: "json \<Rightarrow> bool" where
  "isRpcResponse responseBody =
     (typeofObject responseBody \<and> responseBody \<noteq> JNull \<and> getProp responseBody ''id'' \<noteq> None)"

text \<open>The handler of \<open>page.on('response')\<close>. For a POST it awaits the body before its
  loop over the monitors; the handler is run here as one step, at the moment that
  loop runs, and nothing it does before depends on what happens in between.\<close>

definition onResponse ::
  "(string \<Rightarrow> json option) \<Rightarrow> int \<Rightarrow> response \<Rightarrow> ApiMonitor \<Rightarrow> ApiMonitor" where
  "onResponse JSON_parse ts resp reg =
     (let reg1 = pushResponse ''all''
                   \<lparr>cs_url = resp_url resp, cs_status = resp_status resp, cs_timestamp = ts,
                    cs_rpc = None, cs_body = None\<rparr> reg
      in if req_method (resp_request resp) = ''POST'' then
           (case listenerResponseBody JSON_parse resp of
              None \<Rightarrow> reg1
            | Some responseBody \<Rightarrow>
                if \<not> truthy responseBody then reg1
                else
                  (case parsedPostData JSON_parse (resp_request resp) of
                     None \<Rightarrow> urlResponseLoop resp ts (Some responseBody) (monitorPaths reg1) reg1
                   | Some requestBody \<Rightarrow>
                       if isRpcResponse responseBody \<and> truthy requestBody
                       then rpcResponseLoop resp ts requestBody responseBody
                              (monitorPaths reg1) reg1
                       else urlResponseLoop resp ts (Some responseBody)
                              (monitorPaths reg1) reg1))
         else urlResponseLoop resp ts None (monitorPaths reg1) reg1)"

subsection \<open>Registering monitors\<close>

text \<open>The error objects the timers make.\<close>

definition monitorTimeoutError :: "int option \<Rightarrow> jsError" where
  "monitorTimeoutError t =
     \<lparr>message = ''Monitor timed out ('' @ showTimeout t @ ''ms)'', isTimeout = True\<rparr>"

definition waitTimeoutError :: "int \<Rightarrow> jsError" where
  "waitTimeoutError t =
     \<lparr>message = ''Waiting for response timed out ('' @ showInt t @ ''ms)'', isTimeout = True\<rparr>"

text \<open>\<open>createPromiseController\<close>: a fresh pending promise.\<close>

definition createPromiseController :: "nat \<Rightarrow> PromiseController" where
  "createPromiseController n =
     \<lparr>serial = n, promiseState = None, timeoutId = None, isResolved = False, isRejected = False\<rparr>"

text \<open>\<open>if (options.timeout)\<close>: a number other than zero.\<close>

definition timeoutSet :: "MonitorOptions \<Rightarrow> bool" where
  "timeoutSet options = (case timeout options of None \<Rightarrow> False | Some t \<Rightarrow> t \<noteq> 0)"

text \<open>
  The part the four \<open>startMonitoring...\<close> methods share, after each has stored its own
  path and method: start time, options, empty private logs, a new controller, and the
  timeout timer when the options carry a timeout. \<open>options\<close> is the merged object
  \<open>{...defaultOptions, ...options}\<close>, \<open>now\<close> the value of \<open>Date.now()\<close>.
\<close>

definition registerController :: "int \<Rightarrow> string \<Rightarrow> MonitorOptions \<Rightarrow> ApiMonitor \<Rightarrow> ApiMonitor" where
  "registerController now monitorId options reg =
     (let c = createPromiseController (nextSerial reg);
          reg1 = reg\<lparr>monitorStartTimes := AList.update monitorId now (monitorStartTimes reg),
                     monitorOptions := AList.update monitorId options (monitorOptions reg),
                     capturedRequests := AList.update monitorId [] (capturedRequests reg),
                     capturedResponses := AList.update monitorId [] (capturedResponses reg),
                     nextSerial := Suc (nextSerial reg)\<rparr>
      in if timeoutSet options
         then reg1\<lparr>monitorPromises :=
                     AList.update monitorId (c\<lparr>timeoutId := Some (nextTimer reg)\<rparr>)
                       (monitorPromises reg),
                   timers := timers reg @ [(nextTimer reg, monitorId, options)],
                   nextTimer := Suc (nextTimer reg)\<rparr>
         else reg1\<lparr>monitorPromises := AList.update monitorId c (monitorPromises reg)\<rparr>)"

text \<open>A one-time monitor also arms \<open>page.waitForResponse(predicate, {timeout})\<close>; its
  \<open>then\<close> and \<open>catch\<close> callbacks close over the monitor id and the options. Playwright
  decides when and how that promise settles; the pending call is kept in \<open>waiters\<close>.\<close>

record Harness =
  monitor :: ApiMonitor
  waiters :: "(nat \<times> string \<times> MonitorOptions) list"
  nextWaiter :: nat

definition newHarness :: Harness where
  "newHarness = \<lparr>monitor = newApiMonitor, waiters = [], nextWaiter = 0\<rparr>"

definition armWaiter :: "string \<Rightarrow> MonitorOptions \<Rightarrow> Harness \<Rightarrow> Harness" where
  "armWaiter monitorId options h =
     (if oneTime options
      then h\<lparr>waiters := waiters h @ [(nextWaiter h, monitorId, options)],
             nextWaiter := Suc (nextWaiter h)\<rparr>
      else h)"

definition startMonitoringAll :: "int \<Rightarrow> string \<Rightarrow> MonitorOptions \<Rightarrow> Harness \<Rightarrow> Harness" where
  "startMonitoringAll now monitorId options h =
     h\<lparr>monitor := registerController now monitorId options (monitor h)\<rparr>"

definition startMonitoringSpecificPath ::
  "int \<Rightarrow> string \<Rightarrow> string \<Rightarrow> string \<Rightarrow> MonitorOptions \<Rightarrow> Harness \<Rightarrow> Harness" where
  "startMonitoringSpecificPath now path method monitorId options h =
     armWaiter monitorId options
       (h\<lparr>monitor :=
            registerController now monitorId options
              ((monitor h)\<lparr>monitorPaths := AList.update monitorId path (monitorPaths (monitor h))\<rparr>)\<rparr>)"

definition startMonitoringRpcMethod ::
  "int \<Rightarrow> string \<Rightarrow> string \<Rightarrow> string \<Rightarrow> MonitorOptions \<Rightarrow> Harness \<Rightarrow> Harness" where
  "startMonitoringRpcMethod now methodName paramPath monitorId options h =
     armWaiter monitorId options
       (h\<lparr>monitor :=
            registerController now monitorId options
              ((monitor h)\<lparr>monitorPaths := AList.update monitorId paramPath (monitorPaths (monitor h)),
                          monitorMethods :=
                            AList.update monitorId methodName (monitorMethods (monitor h))\<rparr>)\<rparr>)"

definition startMonitoringBroadcastRPC ::
  "int \<Rightarrow> string \<Rightarrow> string \<Rightarrow> MonitorOptions \<Rightarrow> Harness \<Rightarrow> Harness" where
  "startMonitoringBroadcastRPC now methodName monitorId options h =
     armWaiter monitorId options
       (h\<lparr>monitor :=
            registerController now monitorId options
              ((monitor h)\<lparr>monitorPaths := AList.update monitorId [] (monitorPaths (monitor h)),
                          monitorMethods :=
                            AList.update monitorId methodName (monitorMethods (monitor h))\<rparr>)\<rparr>)"

subsection \<open>Timer and Playwright callbacks\<close>

text \<open>The \<open>setTimeout\<close> callback of a monitor. A timer fires once, and not at all after
  \<open>clearTimeout\<close>.\<close>

definition timerFired :: "nat \<Rightarrow> ApiMonitor \<Rightarrow> ApiMonitor" where
  "timerFired tid reg =
     (case map_of (timers reg) tid of
        None \<Rightarrow> reg
      | Some (monitorId, options) \<Rightarrow>
          rejectIfPending monitorId (monitorTimeoutError (timeout options))
            (reg\<lparr>timers := AList.delete tid (timers reg)\<rparr>))"

text \<open>The \<open>then\<close> callback of the one-time \<open>page.waitForResponse\<close>.\<close>

definition waiterResolved :: "nat \<Rightarrow> response \<Rightarrow> Harness \<Rightarrow> Harness" where
  "waiterResolved wid resp h =
     (case map_of (waiters h) wid of
        None \<Rightarrow> h
      | Some (monitorId, options) \<Rightarrow>
          h\<lparr>monitor := resolveIfPending monitorId resp (monitor h),
            waiters := AList.delete wid (waiters h)\<rparr>)"

text \<open>The \<open>catch\<close> callback: an error whose message mentions a timeout is wrapped in a
  marked timeout error, any other error is passed on as it is.\<close>

definition mentionsTimeout :: "string \<Rightarrow> bool" where
  "mentionsTimeout m = (m \<noteq> [] \<and> (str_includes m ''timeout'' \<or> str_includes m ''timed out''))"

definition waiterError :: "MonitorOptions \<Rightarrow> jsError \<Rightarrow> jsError" where
  "waiterError options e =
     (if mentionsTimeout (message e)
      then \<lparr>message = ''Monitor timed out ('' @ showTimeout (timeout options) @ ''ms): '' @ message e,
            isTimeout = True\<rparr>
      else e)"

definition waiterRejected :: "nat \<Rightarrow> jsError \<Rightarrow> Harness \<Rightarrow> Harness" where
  "waiterRejected wid e h =
     (case map_of (waiters h) wid of
        None \<Rightarrow> h
      | Some (monitorId, options) \<Rightarrow>
          h\<lparr>monitor := rejectIfPending monitorId (waiterError options e) (monitor h),
            waiters := AList.delete wid (waiters h)\<rparr>)"

subsection \<open>Cleaning up and cancelling\<close>

definition cleanupMonitor :: "string \<Rightarrow> ApiMonitor \<Rightarrow> ApiMonitor" where
  "cleanupMonitor monitorId reg =
     reg\<lparr>timers :=
           (case map_of (monitorPromises reg) monitorId of
              None \<Rightarrow> timers reg
            | Some c \<Rightarrow>
                (case timeoutId c of None \<Rightarrow> timers reg | Some t \<Rightarrow> AList.delete t (timers reg))),
         monitorPromises := AList.delete monitorId (monitorPromises reg),
         monitorStartTimes := AList.delete monitorId (monitorStartTimes reg),
         monitorPaths := AList.delete monitorId (monitorPaths reg),
         monitorOptions := AList.delete monitorId (monitorOptions reg),
         monitorMethods := AList.delete monitorId (monitorMethods reg)\<rparr>"

definition cancelMonitor :: "string \<Rightarrow> ApiMonitor \<Rightarrow> ApiMonitor" where
  "cancelMonitor monitorId reg =
     (if map_of (monitorPromises reg) monitorId \<noteq> None then cleanupMonitor monitorId reg else reg)"

definition cancelAllMonitors :: "ApiMonitor \<Rightarrow> ApiMonitor" where
  "cancelAllMonitors reg = fold cleanupMonitor (map fst (monitorPromises reg)) reg"

definition getActiveMonitorsCount :: "ApiMonitor \<Rightarrow> nat" where
  "getActiveMonitorsCount reg = length (monitorPromises reg)"

subsection \<open>Events\<close>

text \<open>
  Everything the event loop can run between two steps of the pipeline: a traffic
  callback (with its \<open>Date.now()\<close>), a monitor's timer, a settled one-time
  \<open>page.waitForResponse\<close>, the \<open>close\<close> callback that the constructor registers on the
  page (it calls \<open>cancelAllMonitors\<close>), and, while \<open>waitForResponse\<close> waits on a monitor
  that is not one-time, the outcome of the \<open>page.waitForResponse\<close> call it made itself
  (\<open>WaitSettled\<close>, which touches no state).
\<close>

datatype event =
    RequestSeen int request
  | ResponseSeen int response
  | TimerFired nat
  | WaiterResolved nat response
  | WaiterRejected nat jsError
  | PageClosed
  | WaitSettled settlement

fun step :: "(string \<Rightarrow> json option) \<Rightarrow> event \<Rightarrow> Harness \<Rightarrow> Harness" where
  "step JSON_parse (RequestSeen ts req) h = h\<lparr>monitor := onRequest JSON_parse ts req (monitor h)\<rparr>"
| "step JSON_parse (ResponseSeen ts resp) h = h\<lparr>monitor := onResponse JSON_parse ts resp (monitor h)\<rparr>"
| "step JSON_parse (TimerFired tid) h = h\<lparr>monitor := timerFired tid (monitor h)\<rparr>"
| "step JSON_parse (WaiterResolved wid resp) h = waiterResolved wid resp h"
| "step JSON_parse (WaiterRejected wid e) h = waiterRejected wid e h"
| "step JSON_parse PageClosed h = h\<lparr>monitor := cancelAllMonitors (monitor h)\<rparr>"
| "step JSON_parse (WaitSettled s) h = h"

subsection \<open>waitForResponse\<close>

record ApiResponseResult =
  ar_success :: bool
  ar_data :: json
  ar_responseTime :: int
  ar_error :: "string option"
  ar_rawResponse :: "response option"
  ar_url :: "string option"
  ar_status :: "int option"
  ar_method :: "string option"
  ar_requestId :: "json option"
  ar_timedOut :: "bool option"

text \<open>The promise \<open>waitForResponse\<close> races against its own timer: the controller's
  promise for a one-time monitor, else the \<open>page.waitForResponse\<close> call it makes.\<close>

definition racePromise :: "bool \<Rightarrow> string \<Rightarrow> Harness \<Rightarrow> settlement option" where
  "racePromise one monitorId h =
     (if one
      then (case map_of (monitorPromises (monitor h)) monitorId of
              None \<Rightarrow> None
            | Some c \<Rightarrow> promiseState c)
      else None)"

fun ownWaitSettled :: "bool \<Rightarrow> event \<Rightarrow> settlement option" where
  "ownWaitSettled one (WaitSettled s) = (if one then None else Some s)"
| "ownWaitSettled one _ = None"

text \<open>
  \<open>await Promise.race([promise, timeoutPromise])\<close>. The caller is suspended while the
  event loop runs \<open>evs\<close>, the events that come before the timer of \<open>timeoutPromise\<close>
  fires; the race ends at the first event that settles the awaited promise, and with
  the timeout error when none of them does.
\<close>

fun awaitRace ::
  "(string \<Rightarrow> json option) \<Rightarrow> bool \<Rightarrow> string \<Rightarrow> int \<Rightarrow> event list \<Rightarrow> Harness
   \<Rightarrow> settlement \<times> Harness" where
  "awaitRace JSON_parse one monitorId t [] h =
     (case racePromise one monitorId h of
        Some s \<Rightarrow> (s, h)
      | None \<Rightarrow> (Rejected (waitTimeoutError t), h))"
| "awaitRace JSON_parse one monitorId t (e # es) h =
     (case racePromise one monitorId h of
        Some s \<Rightarrow> (s, h)
      | None \<Rightarrow>
          (case ownWaitSettled one e of
             Some s \<Rightarrow> (s, h)
           | None \<Rightarrow> awaitRace JSON_parse one monitorId t es (step JSON_parse e h)))"

text \<open>Reading the body of the captured response: \<open>(responseData, requestId)\<close>.\<close>

definition bodyOrText :: "response \<Rightarrow> json" where
  "bodyOrText resp =
     (case resp_json resp of
        Some d \<Rightarrow> d
      | None \<Rightarrow> (case resp_text resp of Some t \<Rightarrow> JStr t | None \<Rightarrow> JNull))"

definition decodeCaptured :: "(string \<Rightarrow> json option) \<Rightarrow> response \<Rightarrow> json \<times> json option" where
  "decodeCaptured JSON_parse resp =
     (if req_method (resp_request resp) = ''POST'' then
        (case resp_json resp of
           Some d \<Rightarrow>
             (d, if truthy d \<and> getProp d ''id'' \<noteq> None
                    \<and> truthyO (parsedPostData JSON_parse (resp_request resp))
                 then getProp d ''id'' else None)
         | None \<Rightarrow> (bodyOrText resp, None))
      else (bodyOrText resp, None))"

definition capturedResult ::
  "(string \<Rightarrow> json option) \<Rightarrow> int \<Rightarrow> response \<Rightarrow> ApiResponseResult" where
  "capturedResult JSON_parse responseTime resp =
     \<lparr>ar_success = True,
      ar_data = fst (decodeCaptured JSON_parse resp),
      ar_responseTime = responseTime,
      ar_error = None,
      ar_rawResponse = Some resp,
      ar_url = Some (resp_url resp),
      ar_status = Some (resp_status resp),
      ar_method = Some (req_method (resp_request resp)),
      ar_requestId = snd (decodeCaptured JSON_parse resp),
      ar_timedOut = Some False\<rparr>"

text \<open>The \<open>catch\<close> branch: the result for a rejected race. \<open>timedOut\<close> is the value of
  \<open>error.isTimeout === true || (error.message && (...))\<close>, taken by its truthiness.\<close>

definition failedResult :: "int \<Rightarrow> jsError \<Rightarrow> ApiResponseResult" where
  "failedResult waitedTime e =
     \<lparr>ar_success = False,
      ar_data = JNull,
      ar_responseTime = waitedTime,
      ar_error = Some (if message e = [] then ''Unknown error'' else message e),
      ar_rawResponse = None,
      ar_url = None,
      ar_status = None,
      ar_method = None,
      ar_requestId = None,
      ar_timedOut = Some (isTimeout e \<or> mentionsTimeout (message e))\<rparr>"

text \<open>\<open>now0\<close> and \<open>now1\<close> are the values of \<open>Date.now()\<close> on entry and when the race
  has ended.\<close>

definition waitForResponse ::
  "(string \<Rightarrow> json option) \<Rightarrow> int \<Rightarrow> int \<Rightarrow> string \<Rightarrow> int \<Rightarrow> event list \<Rightarrow> Harness
   \<Rightarrow> ApiResponseResult \<times> Harness" where
  "waitForResponse JSON_parse now0 now1 monitorId t evs h =
     (if map_of (monitorPromises (monitor h)) monitorId = None
      then (\<lparr>ar_success = False, ar_data = JNull, ar_responseTime = 0,
             ar_error = Some (''Monitor '' @ monitorId @ '' does not exist''),
             ar_rawResponse = None, ar_url = None, ar_status = None, ar_method = None,
             ar_requestId = None, ar_timedOut = None\<rparr>, h)
      else
        (let startTime = (case map_of (monitorStartTimes (monitor h)) monitorId of
                            None \<Rightarrow> now0
                          | Some t0 \<Rightarrow> if t0 = 0 then now0 else t0);
             options = getOptions (monitor h) monitorId;
             raced = awaitRace JSON_parse (oneTime options) monitorId t evs h;
             h' = (snd raced)\<lparr>monitor := cleanupMonitor monitorId (monitor (snd raced))\<rparr>
         in case fst raced of
              Fulfilled resp \<Rightarrow> (capturedResult JSON_parse (now1 - startTime) resp, h')
            | Rejected e \<Rightarrow> (failedResult (now1 - startTime) e, h')))"

subsection \<open>Sequences of calls and events\<close>

text \<open>
  What can happen to one \<open>ApiMonitor\<close>, in any order: an event of the event loop, a
  call of one of the four registration methods, a call of \<open>waitForResponse\<close> (with the
  events that run while it is suspended), and the two cancel methods.
\<close>

datatype action =
    Occurs event
  | StartAll int string MonitorOptions
  | StartSpecificPath int string string string MonitorOptions
  | StartRpcMethod int string string string MonitorOptions
  | StartBroadcastRPC int string string MonitorOptions
  | WaitFor int int string int "event list"
  | CancelMonitor string
  | CancelAllMonitors

fun perform :: "(string \<Rightarrow> json option) \<Rightarrow> action \<Rightarrow> Harness \<Rightarrow> Harness" where
  "perform JSON_parse (Occurs e) h = step JSON_parse e h"
| "perform JSON_parse (StartAll now monitorId options) h =
     startMonitoringAll now monitorId options h"
| "perform JSON_parse (StartSpecificPath now path method monitorId options) h =
     startMonitoringSpecificPath now path method monitorId options h"
| "perform JSON_parse (StartRpcMethod now methodName paramPath monitorId options) h =
     startMonitoringRpcMethod now methodName paramPath monitorId options h"
| "perform JSON_parse (StartBroadcastRPC now methodName monitorId options) h =
     startMonitoringBroadcastRPC now methodName monitorId options h"
| "perform JSON_parse (WaitFor now0 now1 monitorId t evs) h =
     snd (waitForResponse JSON_parse now0 now1 monitorId t evs h)"
| "perform JSON_parse (CancelMonitor monitorId) h = h\<lparr>monitor := cancelMonitor monitorId (monitor h)\<rparr>"
| "perform JSON_parse CancelAllMonitors h = h\<lparr>monitor := cancelAllMonitors (monitor h)\<rparr>"

definition run :: "(string \<Rightarrow> json option) \<Rightarrow> action list \<Rightarrow> Harness" where
  "run JSON_parse acts = fold (perform JSON_parse) acts newHarness"

section \<open>Strings the handlers build\<close>

definition joinWith :: "string \<Rightarrow> string list \<Rightarrow> string" where
  "joinWith sep xs = (case xs of [] \<Rightarrow> [] | y # ys \<Rightarrow> y @ concat (map (\<lambda>z. sep @ z) ys))"

definition hexDigit :: "nat \<Rightarrow> char" where
  "hexDigit n = ''0123456789abcdef'' ! (n mod 16)"

text \<open>The escapes of \<open>JSON.stringify\<close> inside a string: the double quote, the
  backslash and the control characters.\<close>

definition escapeChar :: "char \<Rightarrow> string" where
  "escapeChar c =
     (if c = CHR 0x22 then [CHR 0x5C, CHR 0x22]
      else if c = CHR 0x5C then [CHR 0x5C, CHR 0x5C]
      else if c = CHR 0x08 then [CHR 0x5C, CHR ''b'']
      else if c = CHR 0x09 then [CHR 0x5C, CHR ''t'']
      else if c = CHR 0x0A then [CHR 0x5C, CHR ''n'']
      else if c = CHR 0x0C then [CHR 0x5C, CHR ''f'']
      else if c = CHR 0x0D then [CHR 0x5C, CHR ''r'']
      else if (of_char c :: nat) < 32
        then [CHR 0x5C, CHR ''u'', CHR ''0'', CHR ''0'',
              hexDigit (of_char c div 16), hexDigit (of_char c)]
      else [c])"

definition quoteJSON :: "string \<Rightarrow> string" where
  "quoteJSON s = CHR 0x22 # concat (map escapeChar s) @ [CHR 0x22]"

text \<open>\<open>JSON.stringify(v)\<close> without indentation.\<close>

fun JSON_stringify :: "json \<Rightarrow> string" where
  "JSON_stringify JNull = ''null''"
| "JSON_stringify (JBool b) = (if b then ''true'' else ''false'')"
| "JSON_stringify (JNum n) = showInt n"
| "JSON_stringify (JStr s) = quoteJSON s"
| "JSON_stringify (JArr xs) = ''['' @ joinWith '','' (map JSON_stringify xs) @ '']''"
| "JSON_stringify (JObj kvs) =
     ''{'' @ joinWith '','' (map (\<lambda>(k, v). quoteJSON k @ '':'' @ JSON_stringify v) kvs) @ ''}''"

text \<open>The string a value becomes inside a template literal or under \<open>toString()\<close>.\<close>

fun toStringJS :: "json \<Rightarrow> string" where
  "toStringJS JNull = ''null''"
| "toStringJS (JBool b) = (if b then ''true'' else ''false'')"
| "toStringJS (JNum n) = showInt n"
| "toStringJS (JStr s) = s"
| "toStringJS (JArr xs) = joinWith '','' (map (\<lambda>x. if x = JNull then [] else toStringJS x) xs)"
| "toStringJS (JObj kvs) = ''[object Object]''"

definition toStringO :: "json option \<Rightarrow> string" where
  "toStringO v = (case v of None \<Rightarrow> ''undefined'' | Some x \<Rightarrow> toStringJS x)"

text \<open>\<open>String.prototype.toLowerCase\<close> on the letters A to Z.\<close>

definition lowerChar :: "char \<Rightarrow> char" where
  "lowerChar c =
     (if 65 \<le> (of_char c :: nat) \<and> (of_char c :: nat) \<le> 90
      then char_of ((of_char c :: nat) + 32) else c)"

definition toLowerCase :: "string \<Rightarrow> string" where
  "toLowerCase s = map lowerChar s"

section \<open>Response handlers (class ApiResponseHandler and ApiMonitor.processBroadcastResponse)\<close>

datatype testProgress = untested | routeTested | SignTested

record ApiResponseRecord =
  rec_endpoint :: string
  rec_method :: string
  rec_status :: int
  rec_success :: bool
  rec_data :: json
  rec_timestamp :: int
  rec_responseTime :: int

record Timing =
  startTime :: int
  endTime :: int
  duration :: int

text \<open>\<open>BridgeOperationOutput\<close>; an optional field that is absent is \<open>None\<close>. The
  \<open>confirmation\<close> field is never written by the code modelled here and is left out.\<close>

record BridgeOperationOutput =
  success :: "bool option"
  transactionHash :: "json option"
  error :: "string option"
  testProgress :: "testProgress option"
  routePass :: "bool option"
  apiResponses :: "(string \<times> ApiResponseRecord) list option"
  preview :: "(string \<times> json) list option"
  timing :: "Timing option"
  screenshots :: "string list option"

text \<open>\<open>recordApiResponse\<close>; \<open>now\<close> is \<open>Date.now()\<close>.\<close>

definition recordApiResponse ::
  "int \<Rightarrow> BridgeOperationOutput \<Rightarrow> ApiResponseResult \<Rightarrow> string \<Rightarrow> string \<Rightarrow> BridgeOperationOutput" where
  "recordApiResponse now result apiResult responseKey endpoint =
     result\<lparr>apiResponses :=
       Some (AList.update responseKey
               \<lparr>rec_endpoint = endpoint,
                rec_method = (case ar_method apiResult of
                                None \<Rightarrow> ''POST''
                              | Some m \<Rightarrow> if m = [] then ''POST'' else m),
                rec_status = (case ar_status apiResult of None \<Rightarrow> 0 | Some n \<Rightarrow> n),
                rec_success = ar_success apiResult,
                rec_data = (if truthy (ar_data apiResult) then ar_data apiResult else JNull),
                rec_timestamp = now,
                rec_responseTime = ar_responseTime apiResult\<rparr>
               (case apiResponses result of None \<Rightarrow> [] | Some m \<Rightarrow> m))\<rparr>"

definition hasNoRoutesFoundError :: "ApiResponseResult \<Rightarrow> bool" where
  "hasNoRoutesFoundError apiResult =
     ((ar_status apiResult = Some 404 \<or> \<not> ar_success apiResult)
      \<and> truthy (ar_data apiResult)
      \<and> ((typeofObject (ar_data apiResult)
           \<and> (getProp (ar_data apiResult) ''message'' = Some (JStr ''no routes found'')
              \<or> (getProp (ar_data apiResult) ''code'' = Some (JNum 5)
                 \<and> getProp (ar_data apiResult) ''message'' = Some (JStr ''no routes found''))))
          \<or> (case ar_data apiResult of
                JStr s \<Rightarrow> str_includes s ''no routes found''
              | _ \<Rightarrow> False)))"

text \<open>The error message a handler extracts from the body of a response whose status
  is not 201; \<open>generic\<close> is the fallback text in front of the status code.\<close>

definition extractErrorMessage ::
  "(string \<Rightarrow> json option) \<Rightarrow> string \<Rightarrow> ApiResponseResult \<Rightarrow> string" where
  "extractErrorMessage JSON_parse generic apiResult =
     (let errorMessage =
            (if truthy (ar_data apiResult) then
               (case ar_data apiResult of
                  JStr s \<Rightarrow> (case JSON_parse s of
                               Some parsedData \<Rightarrow> JSON_stringify parsedData
                             | None \<Rightarrow> s)
                | d \<Rightarrow> if typeofObject d then JSON_stringify d else [])
             else [])
      in if errorMessage = []
         then generic @ (case ar_status apiResult of None \<Rightarrow> ''undefined'' | Some n \<Rightarrow> showInt n)
         else errorMessage)"

text \<open>The scan of a 201 body: only an object or an array is stringified and searched.\<close>

definition embeddedError :: "ApiResponseResult \<Rightarrow> bool" where
  "embeddedError apiResult =
     (truthy (ar_data apiResult) \<and> typeofObject (ar_data apiResult)
      \<and> (str_includes (JSON_stringify (ar_data apiResult)) ''error''
         \<or> str_includes (JSON_stringify (ar_data apiResult)) ''Error''))"

text \<open>\<open>handleRouteApiResponse\<close>: the pair of the returned flag (abort the operation)
  and the result object after the call.\<close>

definition handleRouteApiResponse ::
  "(string \<Rightarrow> json option) \<Rightarrow> int \<Rightarrow> BridgeOperationOutput \<Rightarrow> ApiResponseResult
   \<Rightarrow> bool \<times> BridgeOperationOutput" where
  "handleRouteApiResponse JSON_parse now result apiResult =
     (let r1 = recordApiResponse now result apiResult ''route'' ''/v2/fungible/route''
      in if ar_status apiResult \<noteq> Some 201 then
           (True,
            r1\<lparr>error := Some (if hasNoRoutesFoundError apiResult then ''no routes found''
                               else extractErrorMessage JSON_parse
                                      ''Route API request failed, status code: '' apiResult),
               testProgress := Some routeTested,
               routePass := Some False\<rparr>)
         else if embeddedError apiResult then
           (True,
            r1\<lparr>error := Some (JSON_stringify (ar_data apiResult)),
               testProgress := Some routeTested,
               routePass := Some False\<rparr>)
         else (False, r1\<lparr>testProgress := Some routeTested, routePass := Some True\<rparr>))"

subsection \<open>The simulation response\<close>

text \<open>\<open>s.match(/^[A-Za-z0-9+/=]+$/)\<close>.\<close>

definition isBase64Char :: "char \<Rightarrow> bool" where
  "isBase64Char c =
     (let n = (of_char c :: nat)
      in (65 \<le> n \<and> n \<le> 90) \<or> (97 \<le> n \<and> n \<le> 122) \<or> (48 \<le> n \<and> n \<le> 57)
         \<or> c = CHR ''+'' \<or> c = CHR ''/'' \<or> c = CHR ''='')"

definition looksBase64 :: "string \<Rightarrow> bool" where
  "looksBase64 s = (s \<noteq> [] \<and> (\<forall>c \<in> set s. isBase64Char c))"

text \<open>The value the handler examines, \<open>simulateResult\<close>: \<open>data.result\<close>, decoded when it
  is a string (\<open>atob\<close> and \<open>JSON.parse\<close> are the built-ins, \<open>None\<close> when they throw), else
  \<open>data.response.result\<close>; \<open>None\<close> stands for \<open>null\<close> and \<open>undefined\<close>.\<close>

definition parseSimulateResult ::
  "(string \<Rightarrow> json option) \<Rightarrow> (string \<Rightarrow> string option) \<Rightarrow> json \<Rightarrow> json option" where
  "parseSimulateResult JSON_parse atob responseData =
     (case getProp responseData ''result'' of
        Some r \<Rightarrow>
          if truthy r then
            (case r of
               JStr s \<Rightarrow>
                 if looksBase64 s then
                   (case atob s of
                      None \<Rightarrow> Some (JStr s)
                    | Some decodedResult \<Rightarrow>
                        (case JSON_parse decodedResult of
                           Some v \<Rightarrow> Some v
                         | None \<Rightarrow> Some (JStr decodedResult)))
                 else (case JSON_parse s of Some v \<Rightarrow> Some v | None \<Rightarrow> Some (JStr s))
             | _ \<Rightarrow> Some r)
          else (case getProp responseData ''response'' of
                  None \<Rightarrow> None
                | Some resp \<Rightarrow> if truthy resp then getProp resp ''result'' else None)
      | None \<Rightarrow>
          (case getProp responseData ''response'' of
             None \<Rightarrow> None
           | Some resp \<Rightarrow> if truthy resp then getProp resp ''result'' else None))"

text \<open>\<open>s.match(/error[^}]*}/i)\<close>: from the first \<open>error\<close> to the next closing brace.\<close>

fun errorFragment :: "string \<Rightarrow> string option" where
  "errorFragment [] = None"
| "errorFragment (c # cs) =
     (if prefix ''error'' (toLowerCase (c # cs)) then
        (if CHR ''}'' \<in> set (drop 5 (c # cs))
         then Some (take 5 (c # cs) @ takeWhile (\<lambda>x. x \<noteq> CHR ''}'') (drop 5 (c # cs)) @ ''}'')
         else None)
      else errorFragment cs)"

text \<open>\<open>a || b\<close> on values.\<close>

definition orElse :: "json option \<Rightarrow> json option \<Rightarrow> json option" where
  "orElse a b = (if truthyO a then a else b)"

text \<open>\<open>handleSimulateRpcResponse\<close>: the returned flag (an error was found) and the
  result object after the call. Nothing inside its \<open>try\<close> block throws on a value of
  this data model, so the \<open>catch\<close> branch has no counterpart.\<close>

definition handleSimulateRpcResponse ::
  "(string \<Rightarrow> json option) \<Rightarrow> (string \<Rightarrow> string option) \<Rightarrow> int \<Rightarrow> BridgeOperationOutput
   \<Rightarrow> ApiResponseResult \<Rightarrow> bool \<times> BridgeOperationOutput" where
  "handleSimulateRpcResponse JSON_parse atob now result rpcResult =
     (let r1 = result\<lparr>apiResponses :=
                 Some (AList.update ''simulate''
                         \<lparr>rec_endpoint = ''/cosmos.tx.v1beta1.Service/Simulate'',
                          rec_method = ''POST'',
                          rec_status = (case ar_status rpcResult of None \<Rightarrow> 0 | Some n \<Rightarrow> n),
                          rec_success = ar_success rpcResult,
                          rec_data = (if truthy (ar_data rpcResult) then ar_data rpcResult else JNull),
                          rec_timestamp = now,
                          rec_responseTime = ar_responseTime rpcResult\<rparr>
                         (case apiResponses result of None \<Rightarrow> [] | Some m \<Rightarrow> m))\<rparr>;
          responseData = ar_data rpcResult
      in if \<not> truthy responseData then (False, r1)
         else if truthyO (getProp responseData ''error'') then
           (True,
            r1\<lparr>error := Some (''Transaction simulation failed: '' @
                 (case getProp responseData ''error'' of
                    None \<Rightarrow> []
                  | Some e \<Rightarrow> if typeofObject e then JSON_stringify e else toStringJS e))\<rparr>)
         else
           (case parseSimulateResult JSON_parse atob responseData of
              None \<Rightarrow> (False, r1)
            | Some simulateResult \<Rightarrow>
                if \<not> truthy simulateResult then (False, r1)
                else if getProp simulateResult ''code'' \<noteq> None
                        \<and> getProp simulateResult ''code'' \<noteq> Some (JNum 0) then
                  (True,
                   r1\<lparr>error := Some (''Transaction simulation failed: '' @
                        toStringJS
                          (case orElse (getProp simulateResult ''raw_log'')
                                  (getProp simulateResult ''message'') of
                             Some m \<Rightarrow> if truthy m then m
                                       else JStr (''Code: '' @ toStringO (getProp simulateResult ''code''))
                           | None \<Rightarrow> JStr (''Code: '' @ toStringO (getProp simulateResult ''code''))))\<rparr>)
                else
                  (let resultString = toLowerCase (JSON_stringify simulateResult)
                   in if str_includes resultString ''error'' \<or> str_includes resultString ''fail'' then
                        (True,
                         r1\<lparr>error := Some (''Transaction simulation failed: '' @
                              (if truthyO (getProp simulateResult ''raw_log'')
                               then toStringO (getProp simulateResult ''raw_log'')
                               else if truthyO (getProp simulateResult ''log'')
                               then toStringO (getProp simulateResult ''log'')
                               else (case errorFragment resultString of
                                       Some m \<Rightarrow> m
                                     | None \<Rightarrow> ''Unknown error'')))\<rparr>)
                      else (False, r1))))"

subsection \<open>The broadcast response\<close>



section \<open>The operation pipeline (class AppPage)\<close>

record FinalizeOptions =
  fo_success :: "bool option"
  fo_testProgress :: "testProgress option"
  fo_routePass :: "bool option"

text \<open>
  \<open>finalizeResult\<close>, statement by statement. \<open>nowA\<close>, \<open>nowB\<close> and \<open>nowC\<close> are its three
  reads of \<open>Date.now()\<close>: for a missing timing object, for a missing start time, and for
  the end time.
\<close>

definition stampTiming :: "int \<Rightarrow> int \<Rightarrow> int \<Rightarrow> BridgeOperationOutput \<Rightarrow> BridgeOperationOutput" where
  "stampTiming nowA nowB nowC result =
     (let t0 = (case timing result of
                  None \<Rightarrow> \<lparr>startTime = nowA, endTime = 0, duration = 0\<rparr>
                | Some t \<Rightarrow> t);
          start = (if startTime t0 = 0 then nowB else startTime t0)
      in result\<lparr>timing := Some (t0\<lparr>startTime := start, endTime := nowC,
                                      duration := nowC - start\<rparr>)\<rparr>)"

text \<open>\<open>if (options) { ... }\<close>: each field that the options define is copied.\<close>

definition applyOptions :: "FinalizeOptions option \<Rightarrow> BridgeOperationOutput \<Rightarrow> BridgeOperationOutput" where
  "applyOptions options r =
     (case options of
        None \<Rightarrow> r
      | Some opts \<Rightarrow>
          r\<lparr>success := (case fo_success opts of None \<Rightarrow> success r | Some b \<Rightarrow> Some b),
            testProgress := (case fo_testProgress opts of None \<Rightarrow> testProgress r | Some p \<Rightarrow> Some p),
            routePass := (case fo_routePass opts of None \<Rightarrow> routePass r | Some b \<Rightarrow> Some b)\<rparr>)"

text \<open>\<open>if (result.error && result.success === undefined) result.success = false\<close>.\<close>

definition failOnError :: "BridgeOperationOutput \<Rightarrow> BridgeOperationOutput" where
  "failOnError r =
     (if (case error r of None \<Rightarrow> False | Some e \<Rightarrow> e \<noteq> []) \<and> success r = None
      then r\<lparr>success := Some False\<rparr> else r)"

text \<open>\<open>if (result.routePass === false && result.success === undefined) result.success = false\<close>.\<close>

definition failOnRoute :: "BridgeOperationOutput \<Rightarrow> BridgeOperationOutput" where
  "failOnRoute r =
     (if routePass r = Some False \<and> success r = None then r\<lparr>success := Some False\<rparr> else r)"

text \<open>The default of \<open>testProgress\<close> when it is not set.\<close>

definition defaultProgress :: "BridgeOperationOutput \<Rightarrow> BridgeOperationOutput" where
  "defaultProgress r =
     (if testProgress r = None then
        (if error r = Some ''Wallet connection failed'' then r\<lparr>testProgress := Some untested\<rparr>
         else if routePass r \<noteq> None then r\<lparr>testProgress := Some routeTested\<rparr>
         else r)
      else r)"

text \<open>\<open>if (result.success === undefined) result.success = true\<close>.\<close>

definition defaultSuccess :: "BridgeOperationOutput \<Rightarrow> BridgeOperationOutput" where
  "defaultSuccess r = (if success r = None then r\<lparr>success := Some True\<rparr> else r)"

definition finalizeResult ::
  "int \<Rightarrow> int \<Rightarrow> int \<Rightarrow> BridgeOperationOutput \<Rightarrow> FinalizeOptions option \<Rightarrow> BridgeOperationOutput" where
  "finalizeResult nowA nowB nowC result options =
     defaultSuccess (defaultProgress (failOnRoute (failOnError
       (applyOptions options (stampTiming nowA nowB nowC result)))))"

text \<open>
  The state one run of the pipeline works on: the result object it builds, the names
  it has passed to \<open>takeScreenshot\<close> so far, and the page's \<open>ApiMonitor\<close>.
\<close>

record PipelineState =
  result :: BridgeOperationOutput
  screenshotCalls :: "string list"
  apiMonitor :: Harness

text \<open>\<open>takeScreenshot\<close> catches every error of its own, so a call only leaves a trace.\<close>

definition takeScreenshot :: "string \<Rightarrow> PipelineState \<Rightarrow> PipelineState" where
  "takeScreenshot name s = s\<lparr>screenshotCalls := screenshotCalls s @ [name]\<rparr>"

text \<open>\<open>if (result.screenshots) result.screenshots.push(path)\<close>.\<close>

definition pushScreenshot :: "string \<Rightarrow> PipelineState \<Rightarrow> PipelineState" where
  "pushScreenshot path s =
     (case screenshots (result s) of
        None \<Rightarrow> s
      | Some l \<Rightarrow> s\<lparr>result := (result s)\<lparr>screenshots := Some (l @ [path])\<rparr>\<rparr>)"

text \<open>
  A stage of the pipeline is an \<open>async\<close> method that works on the state and either
  returns a value or throws; what it changed before throwing stays changed.
  \<open>performBridgeOperation\<close> is modelled for arbitrary stages; the stages that the
  claims are about are modelled below and can be put in their places.
\<close>

type_synonym 'a stage = "PipelineState \<Rightarrow> (jsError + 'a) \<times> PipelineState"

record Stages =
  st_setupWalletConnection :: "bool stage"
  st_setupBridgeTransaction :: "bool stage"
  st_processAmountAndMonitorRoute :: "bool stage"
  st_selectRouteAndGetPreview :: "unit stage"
  st_previewAndSubmitRoute :: "bool stage"
  st_handleTransactionConfirmation :: "bool stage"

text \<open>The first statements of the \<open>try\<close> block: a screenshot, and every monitor left
  over on the page is cancelled.\<close>

definition beginOperation :: "string \<Rightarrow> PipelineState \<Rightarrow> PipelineState" where
  "beginOperation taskId s0 =
     (let s1 = pushScreenshot (''screenshots/bridge-operation-start-task-'' @ taskId @ ''.png'')
                 (takeScreenshot ''bridge-operation-start'' s0)
      in s1\<lparr>apiMonitor :=
              (apiMonitor s1)\<lparr>monitor := cancelAllMonitors (monitor (apiMonitor s1))\<rparr>\<rparr>)"

text \<open>The body of the \<open>try\<close> block of \<open>performBridgeOperation\<close>: it ends with the options
  for \<open>finalizeResult\<close>, or with the error a stage threw.\<close>

definition bridgeFlow :: "string \<Rightarrow> Stages \<Rightarrow> PipelineState \<Rightarrow> (jsError + FinalizeOptions) \<times> PipelineState" where
  "bridgeFlow taskId stages s0 =
     (let s2 = beginOperation taskId s0
      in case st_setupWalletConnection stages s2 of
           (Inl e, s3) \<Rightarrow> (Inl e, s3)
         | (Inr connected, s3) \<Rightarrow>
         if \<not> connected
         then (Inr \<lparr>fo_success = Some False, fo_testProgress = Some untested,
                    fo_routePass = None\<rparr>, s3)
         else case st_setupBridgeTransaction stages s3 of
           (Inl e, s4) \<Rightarrow> (Inl e, s4)
         | (Inr configured, s4) \<Rightarrow>
         if \<not> configured
         then (Inr \<lparr>fo_success = Some False, fo_testProgress = Some untested,
                    fo_routePass = None\<rparr>, s4)
         else case st_processAmountAndMonitorRoute stages s4 of
           (Inl e, s5) \<Rightarrow> (Inl e, s5)
         | (Inr routeOk, s5) \<Rightarrow>
         if \<not> routeOk
         then (Inr \<lparr>fo_success = Some False, fo_testProgress = Some routeTested,
                    fo_routePass = Some False\<rparr>, s5)
         else case st_selectRouteAndGetPreview stages s5 of
           (Inl e, s6) \<Rightarrow> (Inl e, s6)
         | (Inr u, s6) \<Rightarrow>
         case st_previewAndSubmitRoute stages s6 of
           (Inl e, s7) \<Rightarrow> (Inl e, s7)
         | (Inr submitted, s7) \<Rightarrow>
         if \<not> submitted
         then (Inr \<lparr>fo_success = Some False, fo_testProgress = Some routeTested,
                    fo_routePass = Some False\<rparr>, s7)
         else case st_handleTransactionConfirmation stages s7 of
           (Inl e, s8) \<Rightarrow> (Inl e, s8)
         | (Inr confirmed, s8) \<Rightarrow>
         if \<not> confirmed
         then (Inr \<lparr>fo_success = Some False, fo_testProgress = Some SignTested,
                    fo_routePass = Some True\<rparr>, s8)
         else (Inr \<lparr>fo_success = Some True, fo_testProgress = Some SignTested,
                    fo_routePass = Some True\<rparr>, s8))"

text \<open>The result object \<open>performBridgeOperation\<close> starts from; \<open>t0\<close> is \<open>Date.now()\<close>.\<close>

definition initialResult :: "int \<Rightarrow> BridgeOperationOutput" where
  "initialResult t0 =
     \<lparr>success = Some False, transactionHash = None, error = None,
      testProgress = Some untested, routePass = None, apiResponses = Some [],
      preview = None, timing = Some \<lparr>startTime = t0, endTime = 0, duration = 0\<rparr>,
      screenshots = Some []\<rparr>"

text \<open>The \<open>catch\<close> block: the message goes into \<open>error\<close>, a screenshot is taken, and the
  result is finalized with \<open>success: false\<close> and the progress reached so far.\<close>

definition recordFailure :: "string \<Rightarrow> jsError \<Rightarrow> PipelineState \<Rightarrow> PipelineState" where
  "recordFailure taskId e s =
     pushScreenshot (''screenshots/bridge-operation-error-task-'' @ taskId @ ''.png'')
       (takeScreenshot ''bridge-operation-error''
          (s\<lparr>result := (result s)\<lparr>error := Some (message e)\<rparr>\<rparr>))"

text \<open>\<open>performBridgeOperation\<close>, on the monitor \<open>h\<close> of the page. The returned object is
  the \<open>result\<close> of the state returned here.\<close>

definition initialState :: "int \<Rightarrow> Harness \<Rightarrow> PipelineState" where
  "initialState t0 h = \<lparr>result = initialResult t0, screenshotCalls = [], apiMonitor = h\<rparr>"

definition performBridgeOperation ::
  "string \<Rightarrow> int \<Rightarrow> int \<Rightarrow> int \<Rightarrow> int \<Rightarrow> Stages \<Rightarrow> Harness \<Rightarrow> PipelineState" where
  "performBridgeOperation taskId t0 nowA nowB nowC stages h =
     (case bridgeFlow taskId stages (initialState t0 h) of
        (Inr options, s) \<Rightarrow>
          s\<lparr>result := finalizeResult nowA nowB nowC (result s) (Some options)\<rparr>
      | (Inl e, s) \<Rightarrow>
          (let s1 = recordFailure taskId e s
           in s1\<lparr>result :=
                   finalizeResult nowA nowB nowC (result s1)
                     (Some \<lparr>fo_success = Some False,
                            fo_testProgress = testProgress (result s1),
                            fo_routePass = routePass (result s1)\<rparr>)\<rparr>))"

subsection \<open>Stage 3: processAmountAndMonitorRoute\<close>

text \<open>The options of the Route and Messages monitors, merged with the defaults.\<close>

definition routeOptions :: MonitorOptions where
  "routeOptions = \<lparr>oneTime = True, verbose = False, timeout = Some 5000,
                    silentTimeout = True, partialMatch = True\<rparr>"

text \<open>
  What the stage gets from outside: the default monitor id and the times read from the
  clock, what \<open>enterAmount\<close> returns or throws, the events that the event loop runs
  while the amount is typed and while \<open>waitForResponse\<close> waits, and what the fallback
  reads from the page (\<open>getBridgePreviewInfo\<close>, and the Preview Route button as
  \<open>(found, enabled)\<close>).
\<close>

record RouteEnv =
  route_monitorId :: string
  route_registeredAt :: int
  route_enterAmount :: "jsError + bool"
  route_eventsBeforeWait :: "event list"
  route_waitEntered :: int
  route_waitEnded :: int
  route_eventsDuringWait :: "event list"
  route_handledAt :: int
  route_uiInfo :: "jsError + (string \<times> string) list"
  route_previewButton :: "jsError + (bool \<times> bool)"

text \<open>The first half of the stage: register the monitor, type the amount, wait.\<close>

definition awaitRouteApi ::
  "(string \<Rightarrow> json option) \<Rightarrow> RouteEnv \<Rightarrow> PipelineState
   \<Rightarrow> (jsError + ApiResponseResult) \<times> PipelineState" where
  "awaitRouteApi JSON_parse env s =
     (let h1 = fold (step JSON_parse) (route_eventsBeforeWait env)
                 (startMonitoringSpecificPath (route_registeredAt env) ''route'' ''POST''
                    (route_monitorId env) routeOptions (apiMonitor s))
      in case route_enterAmount env of
           Inl e \<Rightarrow> (Inl e, s\<lparr>apiMonitor := h1\<rparr>)
         | Inr amountEntered \<Rightarrow>
             (let waited = waitForResponse JSON_parse (route_waitEntered env) (route_waitEnded env)
                             (route_monitorId env) 5000 (route_eventsDuringWait env) h1
              in (Inr (fst waited), s\<lparr>apiMonitor := snd waited\<rparr>)))"

definition uiPreview :: "(string \<times> string) list \<Rightarrow> (string \<times> json) list" where
  "uiPreview uiInfo = map (\<lambda>(k, v). (k, JStr v)) uiInfo"

definition routeFailed :: "string \<Rightarrow> (string \<times> string) list \<Rightarrow> PipelineState \<Rightarrow> PipelineState" where
  "routeFailed msg uiInfo s =
     s\<lparr>result := (result s)\<lparr>error := Some msg, testProgress := Some routeTested,
                             routePass := Some False, preview := Some (uiPreview uiInfo)\<rparr>\<rparr>"

definition checkUIStateForRouteValidity :: "RouteEnv \<Rightarrow> bool stage" where
  "checkUIStateForRouteValidity env s =
     (let s1 = takeScreenshot ''route-ui-check'' s
      in case route_uiInfo env of
           Inl e \<Rightarrow> (Inl e, s1)
         | Inr uiInfo \<Rightarrow>
             (case map_of uiInfo ''error'' of
                Some (c # cs) \<Rightarrow> (Inr False, routeFailed (c # cs) uiInfo s1)
              | _ \<Rightarrow>
                 (case route_previewButton env of
                    Inl e \<Rightarrow> (Inl e, s1)
                  | Inr (found, enabled) \<Rightarrow>
                      if \<not> found \<or> \<not> enabled
                      then (Inr False,
                            routeFailed (if found then ''Preview Route button is disabled''
                                         else ''Preview Route button not found'') uiInfo s1)
                      else (Inr True,
                            s1\<lparr>result := (result s1)\<lparr>testProgress := Some routeTested,
                                                     routePass := Some True,
                                                     preview := Some (uiPreview uiInfo)\<rparr>\<rparr>))))"

definition processAmountAndMonitorRoute :: "(string \<Rightarrow> json option) \<Rightarrow> RouteEnv \<Rightarrow> bool stage" where
  "processAmountAndMonitorRoute JSON_parse env s =
     (case awaitRouteApi JSON_parse env s of
        (Inl e, s1) \<Rightarrow> (Inl e, s1)
      | (Inr apiResult, s1) \<Rightarrow>
          if ar_success apiResult then
            (let handled = handleRouteApiResponse JSON_parse (route_handledAt env) (result s1) apiResult
             in (Inr (\<not> fst handled), s1\<lparr>result := snd handled\<rparr>))
          else checkUIStateForRouteValidity env s1)"

subsection \<open>Stage 5: previewAndSubmitRoute\<close>

text \<open>The options of the simulation monitor, merged with the defaults.\<close>

definition simulateOptions :: MonitorOptions where
  "simulateOptions = \<lparr>oneTime = True, verbose = True, timeout = Some 15000,
                       silentTimeout = False, partialMatch = True\<rparr>"

text \<open>
  What the stage gets from outside. \<open>prev_handleMsgs\<close> stands for
  \<open>ApiResponseHandler.handleMsgsApiResponse\<close>, which no property below depends on: it
  may change the result object in any way and returns whether to abort.
\<close>

record PreviewEnv =
  prev_msgsMonitorId :: string
  prev_msgsRegisteredAt :: int
  prev_clickPreviewRoute :: "jsError + bool"
  prev_keplrAfterPreview :: "jsError + bool"
  prev_eventsBeforeMsgsWait :: "event list"
  prev_msgsWaitEntered :: int
  prev_msgsWaitEnded :: int
  prev_eventsDuringMsgsWait :: "event list"
  prev_handleMsgs :: "BridgeOperationOutput \<Rightarrow> ApiResponseResult \<Rightarrow> bool \<times> BridgeOperationOutput"
  prev_simulateMonitorId :: string
  prev_simulateRegisteredAt :: int
  prev_clickSubmit :: "jsError + bool"
  prev_keplrAfterSubmit :: "jsError + bool"
  prev_eventsBeforeSimulateWait :: "event list"
  prev_simulateWaitEntered :: int
  prev_simulateWaitEnded :: int
  prev_eventsDuringSimulateWait :: "event list"
  prev_simulateHandledAt :: int

text \<open>The Messages half: up to the screenshot of the preview page. \<open>Inr False\<close> is the
  early \<open>return false\<close>.\<close>

definition previewRoute :: "(string \<Rightarrow> json option) \<Rightarrow> string \<Rightarrow> PreviewEnv \<Rightarrow> bool stage" where
  "previewRoute JSON_parse taskId env s =
     (let h1 = fold (step JSON_parse) (prev_eventsBeforeMsgsWait env)
                 (startMonitoringSpecificPath (prev_msgsRegisteredAt env) ''msgs'' ''POST''
                    (prev_msgsMonitorId env) routeOptions (apiMonitor s));
          s1 = s\<lparr>apiMonitor := h1\<rparr>
      in case prev_clickPreviewRoute env of
           Inl e \<Rightarrow> (Inl e, s1)
         | Inr clickedPreviewRoute \<Rightarrow>
         if \<not> clickedPreviewRoute
         then (Inr False,
               s1\<lparr>result := (result s1)\<lparr>error := Some ''Unable to click Preview Route button''\<rparr>\<rparr>)
         else case prev_keplrAfterPreview env of
           Inl e \<Rightarrow> (Inl e, s1)
         | Inr confirmed \<Rightarrow>
         (let waited = waitForResponse JSON_parse (prev_msgsWaitEntered env) (prev_msgsWaitEnded env)
                         (prev_msgsMonitorId env) 10000 (prev_eventsDuringMsgsWait env) h1;
              s2 = s1\<lparr>apiMonitor := snd waited\<rparr>;
              handled = (if ar_success (fst waited)
                         then prev_handleMsgs env (result s2) (fst waited)
                         else (False, result s2))
          in if fst handled then (Inr False, s2\<lparr>result := snd handled\<rparr>)
             else (Inr True,
                   pushScreenshot (''screenshots/route-preview-page-task-'' @ taskId @ ''.png'')
                     (takeScreenshot ''route-preview-page'' (s2\<lparr>result := snd handled\<rparr>)))))"

text \<open>The simulation half, first part: register the RPC monitor, click Submit, confirm
  in the wallet, wait. \<open>Inr None\<close> is the \<open>return false\<close> after a failed click.\<close>

definition awaitSimulateRpc ::
  "(string \<Rightarrow> json option) \<Rightarrow> PreviewEnv \<Rightarrow> PipelineState
   \<Rightarrow> (jsError + ApiResponseResult option) \<times> PipelineState" where
  "awaitSimulateRpc JSON_parse env s =
     (let h1 = fold (step JSON_parse) (prev_eventsBeforeSimulateWait env)
                 (startMonitoringRpcMethod (prev_simulateRegisteredAt env) ''abci_query''
                    ''Simulate'' (prev_simulateMonitorId env) simulateOptions (apiMonitor s));
          s1 = s\<lparr>apiMonitor := h1\<rparr>
      in case prev_clickSubmit env of
           Inl e \<Rightarrow> (Inl e, s1)
         | Inr clickedSubmit \<Rightarrow>
         if \<not> clickedSubmit
         then (Inr None,
               s1\<lparr>result := (result s1)\<lparr>error := Some ''Unable to click Submit button''\<rparr>\<rparr>)
         else case prev_keplrAfterSubmit env of
           Inl e \<Rightarrow> (Inl e, s1)
         | Inr confirmed \<Rightarrow>
         (let waited = waitForResponse JSON_parse (prev_simulateWaitEntered env)
                         (prev_simulateWaitEnded env) (prev_simulateMonitorId env) 15000
                         (prev_eventsDuringSimulateWait env) h1
          in (Inr (Some (fst waited)), s1\<lparr>apiMonitor := snd waited\<rparr>)))"

definition submitRoute ::
  "(string \<Rightarrow> json option) \<Rightarrow> (string \<Rightarrow> string option) \<Rightarrow> PreviewEnv \<Rightarrow> bool stage" where
  "submitRoute JSON_parse atob env s =
     (case awaitSimulateRpc JSON_parse env s of
        (Inl e, s1) \<Rightarrow> (Inl e, s1)
      | (Inr None, s1) \<Rightarrow> (Inr False, s1)
      | (Inr (Some simulateResult), s1) \<Rightarrow>
          if ar_success simulateResult then
            (let handled = handleSimulateRpcResponse JSON_parse atob (prev_simulateHandledAt env)
                             (result s1) simulateResult
             in if fst handled
                then (Inr False,
                      s1\<lparr>result := (snd handled)\<lparr>testProgress := Some SignTested,
                                                  routePass := Some True,
                                                  success := Some False\<rparr>\<rparr>)
                else (Inr True, s1\<lparr>result := snd handled\<rparr>))
          else (Inr True, s1))"

definition previewAndSubmitRoute ::
  "(string \<Rightarrow> json option) \<Rightarrow> (string \<Rightarrow> string option) \<Rightarrow> string \<Rightarrow> PreviewEnv \<Rightarrow> bool stage" where
  "previewAndSubmitRoute JSON_parse atob taskId env s =
     (case previewRoute JSON_parse taskId env s of
        (Inl e, s1) \<Rightarrow> (Inl e, s1)
      | (Inr continue, s1) \<Rightarrow>
          if continue then submitRoute JSON_parse atob env s1 else (Inr False, s1))"

subsection \<open>Stage 6: handleTransactionConfirmation\<close>






section \<open>Invariants and sample inputs\<close>

text \<open>
  The invariant behind at-most-once settlement. Every promise that was resolved or
  rejected appears once in \<open>settleLog\<close>, under a serial below \<open>nextSerial\<close>; a registered
  controller's flags and promise state say exactly what the log says about its
  promise; and two registered controllers never share a promise.
\<close>

definition settledOnce :: "ApiMonitor \<Rightarrow> bool" where
  "settledOnce reg \<longleftrightarrow>
     distinct (map fst (settleLog reg))
   \<and> (\<forall>s \<in> fst ` set (settleLog reg). s < nextSerial reg)
   \<and> (\<forall>k c. map_of (monitorPromises reg) k = Some c \<longrightarrow>
         serial c < nextSerial reg
       \<and> (isResolved c \<longleftrightarrow> (\<exists>r. (serial c, Fulfilled r) \<in> set (settleLog reg)))
       \<and> (isRejected c \<longleftrightarrow> (\<exists>e. (serial c, Rejected e) \<in> set (settleLog reg)))
       \<and> (\<forall>s. promiseState c = Some s \<longleftrightarrow> (serial c, s) \<in> set (settleLog reg)))
   \<and> (\<forall>k k' c c'. map_of (monitorPromises reg) k = Some c \<longrightarrow>
         map_of (monitorPromises reg) k' = Some c' \<longrightarrow> serial c = serial c' \<longrightarrow> k = k')"


text \<open>What no event other than a page close changes in the registry: the keys of the
  controllers, and each controller's timer and promise.\<close>

definition shape :: "ApiMonitor \<Rightarrow> (string \<times> nat option \<times> nat) list" where
  "shape reg = map (\<lambda>(k, c). (k, timeoutId c, serial c)) (monitorPromises reg)"


text \<open>The Route monitor of \<open>processAmountAndMonitorRoute\<close>, registered on a new page at
  time 1000, and a response of the Route endpoint.\<close>

definition routeHarness :: Harness where
  "routeHarness =
     startMonitoringSpecificPath 1000 ''route'' ''POST'' ''path_monitor_1000'' routeOptions newHarness"


text \<open>The same page with a second monitor, on the Messages endpoint.\<close>

definition twoMonitors :: Harness where
  "twoMonitors =
     startMonitoringSpecificPath 1001 ''msgs'' ''POST'' ''path_monitor_1001'' routeOptions
       routeHarness"

definition routeResponse :: response where
  "routeResponse =
     \<lparr>resp_url = ''https://api.example/v2/fungible/route'', resp_status = 404,
      resp_request = \<lparr>req_url = ''https://api.example/v2/fungible/route'',
                       req_method = ''POST'', req_postData = Some ''{}''\<rparr>,
      resp_json = Some (JObj [(''code'', JNum 5), (''message'', JStr ''no routes found'')]),
      resp_text = None\<rparr>"

text \<open>A one-time monitor whose response is seen by the listener, then by Playwright's
  own wait, before its timer fires.\<close>

definition c1_acts :: "action list" where
  "c1_acts =
     [StartSpecificPath 1000 ''route'' ''POST'' ''path_monitor_1000'' routeOptions,
      Occurs (ResponseSeen 1200 routeResponse),
      Occurs (WaiterResolved 0 routeResponse),
      Occurs (TimerFired 0)]"

text \<open>One monitor \<open>m1\<close> on the path \<open>route\<close> with partial matching.\<close>

definition c4_registry :: ApiMonitor where
  "c4_registry =
     newApiMonitor
       \<lparr>monitorPaths := [(''m1'', ''route'')],
        monitorOptions := [(''m1'', noOptions\<lparr>partialMatch := True\<rparr>)],
        capturedRequests := [(''all'', []), (''m1'', [])]\<rparr>"

text \<open>Stages that succeed at once, for the stages a scenario is not about.\<close>

definition passStage :: "bool stage" where
  "passStage s = (Inr True, s)"

definition passUnit :: "unit stage" where
  "passUnit s = (Inr (), s)"

text \<open>A result object with \<open>success = false\<close>, status 201 and the body
  \<open>{code: 5, message: "no routes found"}\<close>.\<close>

definition failed201Result :: ApiResponseResult where
  "failed201Result =
     \<lparr>ar_success = False,
      ar_data = JObj [(''code'', JNum 5), (''message'', JStr ''no routes found'')],
      ar_responseTime = 12, ar_error = None, ar_rawResponse = None, ar_url = None,
      ar_status = Some 201, ar_method = Some ''POST'', ar_requestId = None,
      ar_timedOut = Some False\<rparr>"

text \<open>Scenario A: the Route endpoint answers 404 with \<open>{code: 5, message: "no routes
  found"}\<close> while the pipeline waits on the Route monitor.\<close>

definition scenarioA_env :: RouteEnv where
  "scenarioA_env =
     \<lparr>route_monitorId = ''path_monitor_1000'', route_registeredAt = 1000,
      route_enterAmount = Inr True, route_eventsBeforeWait = [],
      route_waitEntered = 1100, route_waitEnded = 1300,
      route_eventsDuringWait = [ResponseSeen 1200 routeResponse],
      route_handledAt = 1301, route_uiInfo = Inr [], route_previewButton = Inr (True, True)\<rparr>"

definition scenarioA_stages :: Stages where
  "scenarioA_stages =
     \<lparr>st_setupWalletConnection = passStage, st_setupBridgeTransaction = passStage,
      st_processAmountAndMonitorRoute = processAmountAndMonitorRoute (\<lambda>s. None) scenarioA_env,
      st_selectRouteAndGetPreview = passUnit, st_previewAndSubmitRoute = passStage,
      st_handleTransactionConfirmation = passStage\<rparr>"

text \<open>A 201 response whose body is the plain text \<open>Internal Server Error\<close>, and one
  whose body is the object \<open>{error: "rate limited"}\<close>.\<close>

definition c5_apiResult :: ApiResponseResult where
  "c5_apiResult =
     \<lparr>ar_success = True, ar_data = JStr ''Internal Server Error'',
      ar_responseTime = 12, ar_error = None, ar_rawResponse = None, ar_url = None,
      ar_status = Some 201, ar_method = Some ''POST'', ar_requestId = None,
      ar_timedOut = Some False\<rparr>"

definition c5_errorBody :: ApiResponseResult where
  "c5_errorBody = c5_apiResult\<lparr>ar_data := JObj [(''error'', JStr ''rate limited'')]\<rparr>"







text \<open>Scenario E: no Messages response arrives, and the simulation RPC answers
  \<open>{result: {code: 5, raw_log: "insufficient funds"}}\<close>.\<close>

definition scenarioE_parse :: "string \<Rightarrow> json option" where
  "scenarioE_parse s =
     (if s = ''simulate-request''
      then Some (JObj [(''jsonrpc'', JStr ''2.0''), (''id'', JNum 3),
                       (''method'', JStr ''abci_query''),
                       (''params'', JObj [(''path'', JStr ''/cosmos.tx.v1beta1.Service/Simulate''),
                                          (''data'', JStr ''0a00'')])])
      else None)"

definition simulateResponse :: response where
  "simulateResponse =
     \<lparr>resp_url = ''https://rpc.example/'', resp_status = 200,
      resp_request = \<lparr>req_url = ''https://rpc.example/'', req_method = ''POST'',
                       req_postData = Some ''simulate-request''\<rparr>,
      resp_json = Some (JObj [(''jsonrpc'', JStr ''2.0''), (''id'', JNum 3),
                              (''result'', JObj [(''code'', JNum 5),
                                                 (''raw_log'', JStr ''insufficient funds'')])]),
      resp_text = None\<rparr>"

definition scenarioE_env :: PreviewEnv where
  "scenarioE_env =
     \<lparr>prev_msgsMonitorId = ''path_monitor_1300'', prev_msgsRegisteredAt = 1300,
      prev_clickPreviewRoute = Inr True, prev_keplrAfterPreview = Inr True,
      prev_eventsBeforeMsgsWait = [], prev_msgsWaitEntered = 1310, prev_msgsWaitEnded = 11310,
      prev_eventsDuringMsgsWait = [], prev_handleMsgs = (\<lambda>r a. (False, r)),
      prev_simulateMonitorId = ''simulate_monitor_11400'', prev_simulateRegisteredAt = 11400,
      prev_clickSubmit = Inr True, prev_keplrAfterSubmit = Inr True,
      prev_eventsBeforeSimulateWait = [], prev_simulateWaitEntered = 11410,
      prev_simulateWaitEnded = 11500,
      prev_eventsDuringSimulateWait = [ResponseSeen 11450 simulateResponse],
      prev_simulateHandledAt = 11501\<rparr>"

definition scenarioE_stages :: Stages where
  "scenarioE_stages =
     \<lparr>st_setupWalletConnection = passStage, st_setupBridgeTransaction = passStage,
      st_processAmountAndMonitorRoute = passStage,
      st_selectRouteAndGetPreview = passUnit,
      st_previewAndSubmitRoute =
        previewAndSubmitRoute scenarioE_parse (\<lambda>s. None) ''0'' scenarioE_env,
      st_handleTransactionConfirmation = passStage\<rparr>"

section \<open>Properties\<close>

subsection \<open>Malformed POST bodies in the request listener\<close>

text \<open>
  Claim C4, as stated: a POST request whose body is not parseable as JSON is still
  matched by plain URL matching and recorded in the private log of every monitor whose
  path matches, as a non-POST request is. The listener does not do that. At the input
  below (one monitor \<open>m1\<close> on the path \<open>route\<close> with partial matching, a POST to
  \<open>https://api/route\<close> whose body no parser accepts) the URL matches the monitor's rule
  and the monitor's private log stays empty, while the same request sent as GET is
  recorded.
\<close>

theorem c4_malformed_post_not_matched:
  "pathMatches ''https://api/route'' ''route'' (getOptions c4_registry ''m1'')
   \<and> map_of (capturedRequests
        (onRequest (\<lambda>s. None) 7
           \<lparr>req_url = ''https://api/route'', req_method = ''POST'',
            req_postData = Some ''{not json''\<rparr> c4_registry)) ''m1'' = Some []
   \<and> map_of (capturedRequests
        (onRequest (\<lambda>s. None) 7
           \<lparr>req_url = ''https://api/route'', req_method = ''GET'',
            req_postData = None\<rparr> c4_registry)) ''m1''
       = Some [\<lparr>cq_url = ''https://api/route'', cq_method = ''GET'', cq_timestamp = 7,
                cq_rpc = None, cq_body = None\<rparr>]"
  by (simp add: c4_registry_def newApiMonitor_def onRequest_def pushRequest_def
      pathMatches_def getOptions_def noOptions_def)

text \<open>
  Claim C4, amended: a POST request whose body is not parseable as JSON is appended to
  the global log \<open>all\<close> only; the request listener ignores it for every monitor,
  whatever the monitor's path and options. It is the response listener that falls
  through to plain URL matching: a response to such a request, when its own body can be
  read and is truthy, is matched against every monitor's path by URL alone.
\<close>

theorem c4_malformed_post_ignored:
  assumes "req_method req = ''POST''"
    and "req_postData req = Some postData"
    and "JSON_parse postData = None"
  shows "onRequest JSON_parse ts req reg =
           pushRequest ''all''
             \<lparr>cq_url = req_url req, cq_method = req_method req, cq_timestamp = ts,
              cq_rpc = None, cq_body = None\<rparr> reg
       \<and> (\<forall>resp responseBody.
            resp_request resp = req \<longrightarrow>
            listenerResponseBody JSON_parse resp = Some responseBody \<longrightarrow>
            truthy responseBody \<longrightarrow>
            onResponse JSON_parse ts resp reg =
              urlResponseLoop resp ts (Some responseBody)
                (monitorPaths reg)
                (pushResponse ''all''
                   \<lparr>cs_url = resp_url resp, cs_status = resp_status resp, cs_timestamp = ts,
                    cs_rpc = None, cs_body = None\<rparr> reg))"
  using assms
  by (simp add: onRequest_def onResponse_def Let_def parsedPostData_def pushResponse_def)


theorem c4_malformed_post_ignored_witness:
  "capturedRequests
     (onRequest (\<lambda>s. None) 7
        \<lparr>req_url = ''https://api/route'', req_method = ''POST'',
         req_postData = Some ''{not json''\<rparr> c4_registry)
   = [(''all'', [\<lparr>cq_url = ''https://api/route'', cq_method = ''POST'', cq_timestamp = 7,
                  cq_rpc = None, cq_body = None\<rparr>]), (''m1'', [])]
   \<and> map_of (capturedResponses
        (onResponse (\<lambda>s. None) 7
           \<lparr>resp_url = ''https://api/route'', resp_status = 200,
            resp_request = \<lparr>req_url = ''https://api/route'', req_method = ''POST'',
                             req_postData = Some ''{not json''\<rparr>,
            resp_json = Some (JBool True), resp_text = None\<rparr> c4_registry)) ''m1''
     = Some [\<lparr>cs_url = ''https://api/route'', cs_status = 200, cs_timestamp = 7,
               cs_rpc = None, cs_body = Some (JBool True)\<rparr>]"
  using c4_malformed_post_ignored
    [of "\<lparr>req_url = ''https://api/route'', req_method = ''POST'',
          req_postData = Some ''{not json''\<rparr>" "''{not json''" "\<lambda>s. None" 7 c4_registry]
  by (simp add: c4_registry_def newApiMonitor_def pushRequest_def pushResponse_def
      listenerResponseBody_def captureResponse_def getOptions_def noOptions_def pathMatches_def)

subsection \<open>What the event loop leaves alone\<close>

lemma shape_update_same:
  "map_of m k = Some c \<Longrightarrow> timeoutId c' = timeoutId c \<Longrightarrow> serial c' = serial c \<Longrightarrow>
   map (\<lambda>(k, c). (k, timeoutId c, serial c)) (AList.update k c' m)
   = map (\<lambda>(k, c). (k, timeoutId c, serial c)) m"
  by (induction m) (auto split: if_splits)

lemma shape_resolveIfPending [simp]: "shape (resolveIfPending monitorId r reg) = shape reg"
  by (auto simp: shape_def resolveIfPending_def settlePromise_def shape_update_same split: option.splits)

lemma shape_rejectIfPending [simp]: "shape (rejectIfPending monitorId e reg) = shape reg"
  by (auto simp: shape_def rejectIfPending_def settlePromise_def shape_update_same split: option.splits)

lemma shape_pushResponse [simp]: "shape (pushResponse monitorId r reg) = shape reg"
  by (simp add: shape_def pushResponse_def)

lemma shape_pushRequest [simp]: "shape (pushRequest monitorId r reg) = shape reg"
  by (simp add: shape_def pushRequest_def)

lemma shape_captureResponse [simp]: "shape (captureResponse monitorId r resp reg) = shape reg"
  by (simp add: captureResponse_def Let_def)

lemma shape_urlResponseLoop [simp]: "shape (urlResponseLoop resp ts body ps reg) = shape reg"
  by (induction resp ts body ps reg rule: urlResponseLoop.induct) simp_all

lemma shape_rpcResponseLoop [simp]:
  "shape (rpcResponseLoop resp ts requestBody responseBody ps reg) = shape reg"
  by (induction resp ts requestBody responseBody ps reg rule: rpcResponseLoop.induct)
     (simp_all split: option.splits)

lemma shape_urlRequestLoop [simp]: "shape (urlRequestLoop req ts body ps reg) = shape reg"
  by (induction req ts body ps reg rule: urlRequestLoop.induct) simp_all

lemma shape_rpcRequestLoop [simp]: "shape (rpcRequestLoop req ts jsonBody ps reg) = shape reg"
  by (induction req ts jsonBody ps reg rule: rpcRequestLoop.induct) (simp_all split: option.splits)

lemma shape_onRequest [simp]: "shape (onRequest P ts req reg) = shape reg"
  by (simp add: onRequest_def Let_def split: option.splits)

lemma shape_onResponse [simp]: "shape (onResponse P ts resp reg) = shape reg"
  by (simp add: onResponse_def Let_def split: option.splits)

lemma shape_timerFired [simp]: "shape (timerFired tid reg) = shape reg"
proof -
  have "shape (reg\<lparr>timers := ts\<rparr>) = shape reg" for ts by (simp add: shape_def)
  then show ?thesis by (simp add: timerFired_def split: option.splits)
qed

lemma shape_step [simp]:
  "e \<noteq> PageClosed \<Longrightarrow> shape (monitor (step P e h)) = shape (monitor h)"
  by (cases e) (simp_all add: waiterResolved_def waiterRejected_def split: option.splits)

lemma shape_awaitRace [simp]:
  "PageClosed \<notin> set evs \<Longrightarrow>
   shape (monitor (snd (awaitRace P one monitorId t evs h))) = shape (monitor h)"
  by (induction evs arbitrary: h) (auto split: option.splits simp del: step.simps)


lemma shape_keys: "map fst (shape reg) = map fst (monitorPromises reg)"
  by (simp add: shape_def case_prod_unfold comp_def)

lemma shape_length: "length (shape reg) = length (monitorPromises reg)"
  by (simp add: shape_def)

lemma shape_lookup:
  "map_of (shape reg) k = map_option (\<lambda>c. (timeoutId c, serial c)) (map_of (monitorPromises reg) k)"
  unfolding shape_def by (induction "monitorPromises reg" arbitrary: reg) (auto simp: map_of_map)

lemma length_delete_distinct:
  "distinct (map fst m) \<Longrightarrow> map_of m k = Some v \<Longrightarrow> Suc (length (AList.delete k m)) = length m"
proof (induction m)
  case Nil
  then show ?case by simp
next
  case (Cons p m)
  show ?case
  proof (cases "fst p = k")
    case True
    with Cons.prems have "k \<notin> fst ` set m" by auto
    then have "AList.delete k m = m" by (rule AList.delete_id)
    with True show ?thesis by simp
  next
    case False
    with Cons show ?thesis by (auto split: if_splits)
  qed
qed


subsection \<open>A page that closes\<close>

text \<open>The \<open>close\<close> callback removes every controller and clears every controller's
  timer; no event ever arms a timer.\<close>

lemma monitorPromises_fold_cleanup:
  "monitorPromises (fold cleanupMonitor ks reg) = fold AList.delete ks (monitorPromises reg)"
  by (induction ks arbitrary: reg) (simp_all add: cleanupMonitor_def)

lemma fold_delete_all: "fst ` set xs \<subseteq> set ks \<Longrightarrow> fold AList.delete ks xs = []"
proof (induction ks arbitrary: xs)
  case Nil
  then show ?case by simp
next
  case (Cons k ks)
  have "fst ` set (AList.delete k xs) \<subseteq> set ks"
    using Cons.prems by (auto simp: AList.delete_eq)
  then show ?case using Cons.IH by simp
qed

lemma monitorPromises_cancelAllMonitors [simp]: "monitorPromises (cancelAllMonitors reg) = []"
  by (simp add: cancelAllMonitors_def monitorPromises_fold_cleanup fold_delete_all)

lemma shape_step_cases:
  "shape (monitor (step P e h)) = shape (monitor h) \<or> shape (monitor (step P e h)) = []"
proof (cases "e = PageClosed")
  case True
  then show ?thesis by (simp add: shape_def)
next
  case False
  then show ?thesis by (simp del: step.simps)
qed

lemma shape_awaitRace_cases:
  "shape (monitor (snd (awaitRace P one monitorId t evs h))) = shape (monitor h)
   \<or> shape (monitor (snd (awaitRace P one monitorId t evs h))) = []"
proof (induction evs arbitrary: h)
  case Nil
  show ?case by (simp split: option.splits)
next
  case (Cons e es)
  show ?case
  proof (cases "racePromise one monitorId h = None \<and> ownWaitSettled one e = None")
    case False
    then show ?thesis by (auto split: option.splits)
  next
    case True
    then have eq: "awaitRace P one monitorId t (e # es) h = awaitRace P one monitorId t es (step P e h)"
      by simp
    from Cons.IH [of "step P e h"] shape_step_cases [of P e h]
    show ?thesis unfolding eq by auto
  qed
qed

lemma timer_gone_delete: "map_of ts tid = None \<Longrightarrow> map_of (AList.delete t ts) tid = None"
  by (simp add: AList.delete_conv')

lemma timer_gone_cleanupMonitor:
  "map_of (timers reg) tid = None \<Longrightarrow> map_of (timers (cleanupMonitor k reg)) tid = None"
  by (simp add: cleanupMonitor_def timer_gone_delete split: option.splits)

lemma timer_gone_fold_cleanup:
  "map_of (timers reg) tid = None \<Longrightarrow> map_of (timers (fold cleanupMonitor ks reg)) tid = None"
  by (induction ks arbitrary: reg) (simp_all add: timer_gone_cleanupMonitor)

lemma cleanup_clears_timer:
  assumes "map_of (monitorPromises reg) k = Some c" and "timeoutId c = Some tid" and "k \<in> set ks"
  shows "map_of (timers (fold cleanupMonitor ks reg)) tid = None"
  using assms
proof (induction ks arbitrary: reg)
  case Nil
  then show ?case by simp
next
  case (Cons k' ks)
  show ?case
  proof (cases "k' = k")
    case True
    have "map_of (timers (cleanupMonitor k reg)) tid = None"
      using Cons.prems(1,2) by (simp add: cleanupMonitor_def AList.delete_conv')
    then show ?thesis using True by (simp add: timer_gone_fold_cleanup)
  next
    case False
    then have "map_of (monitorPromises (cleanupMonitor k' reg)) k = Some c"
      using Cons.prems(1) by (simp add: cleanupMonitor_def AList.delete_conv')
    moreover have "k \<in> set ks" using Cons.prems(3) False by simp
    ultimately show ?thesis using Cons.IH Cons.prems(2) by simp
  qed
qed

lemma cancelAllMonitors_clears_timer:
  assumes "map_of (monitorPromises reg) k = Some c" and "timeoutId c = Some tid"
  shows "map_of (timers (cancelAllMonitors reg)) tid = None"
proof -
  have "k \<in> set (map fst (monitorPromises reg))"
    using assms(1) by (metis map_of_SomeD fst_conv image_eqI set_map)
  with assms show ?thesis unfolding cancelAllMonitors_def by (rule cleanup_clears_timer)
qed

lemma timers_resolveIfPending [simp]: "timers (resolveIfPending monitorId r reg) = timers reg"
  by (simp add: resolveIfPending_def split: option.splits)

lemma timers_rejectIfPending [simp]: "timers (rejectIfPending monitorId e reg) = timers reg"
  by (simp add: rejectIfPending_def split: option.splits)

lemma timers_pushResponse [simp]: "timers (pushResponse monitorId r reg) = timers reg"
  by (simp add: pushResponse_def)

lemma timers_pushRequest [simp]: "timers (pushRequest monitorId r reg) = timers reg"
  by (simp add: pushRequest_def)

lemma timers_captureResponse [simp]: "timers (captureResponse monitorId r resp reg) = timers reg"
  by (simp add: captureResponse_def Let_def)

lemma timers_urlResponseLoop [simp]: "timers (urlResponseLoop resp ts body ps reg) = timers reg"
  by (induction resp ts body ps reg rule: urlResponseLoop.induct) simp_all

lemma timers_rpcResponseLoop [simp]:
  "timers (rpcResponseLoop resp ts requestBody responseBody ps reg) = timers reg"
  by (induction resp ts requestBody responseBody ps reg rule: rpcResponseLoop.induct)
     (simp_all split: option.splits)

lemma timers_urlRequestLoop [simp]: "timers (urlRequestLoop req ts body ps reg) = timers reg"
  by (induction req ts body ps reg rule: urlRequestLoop.induct) simp_all

lemma timers_rpcRequestLoop [simp]: "timers (rpcRequestLoop req ts jsonBody ps reg) = timers reg"
  by (induction req ts jsonBody ps reg rule: rpcRequestLoop.induct) (simp_all split: option.splits)

lemma timers_onRequest [simp]: "timers (onRequest P ts req reg) = timers reg"
  by (simp add: onRequest_def Let_def split: option.splits)

lemma timers_onResponse [simp]: "timers (onResponse P ts resp reg) = timers reg"
  by (simp add: onResponse_def Let_def split: option.splits)

lemma timer_gone_step:
  "map_of (timers (monitor h)) tid = None \<Longrightarrow> map_of (timers (monitor (step P e h))) tid = None"
  by (cases e)
     (simp_all add: timerFired_def waiterResolved_def waiterRejected_def timer_gone_delete
        cancelAllMonitors_def timer_gone_fold_cleanup split: option.splits)

text \<open>While a wait is suspended, the controller registered under an id keeps its timer,
  or that timer is no longer pending.\<close>

lemma timer_kept_or_gone_step:
  assumes "(\<exists>c. map_of (monitorPromises (monitor h)) k = Some c \<and> timeoutId c = Some tid)
           \<or> map_of (timers (monitor h)) tid = None"
  shows "(\<exists>c. map_of (monitorPromises (monitor (step P e h))) k = Some c \<and> timeoutId c = Some tid)
           \<or> map_of (timers (monitor (step P e h))) tid = None"
  using assms
proof
  assume "map_of (timers (monitor h)) tid = None"
  then show ?thesis by (simp add: timer_gone_step del: step.simps)
next
  assume "\<exists>c. map_of (monitorPromises (monitor h)) k = Some c \<and> timeoutId c = Some tid"
  then obtain c where c: "map_of (monitorPromises (monitor h)) k = Some c" "timeoutId c = Some tid"
    by blast
  show ?thesis
  proof (cases "e = PageClosed")
    case True
    then show ?thesis using cancelAllMonitors_clears_timer [OF c] by simp
  next
    case False
    then have "map_of (shape (monitor (step P e h))) k = map_of (shape (monitor h)) k"
      by (simp del: step.simps)
    with c show ?thesis by (auto simp: shape_lookup)
  qed
qed

lemma timer_kept_or_gone_awaitRace:
  assumes "(\<exists>c. map_of (monitorPromises (monitor h)) k = Some c \<and> timeoutId c = Some tid)
           \<or> map_of (timers (monitor h)) tid = None"
  shows "(\<exists>c. map_of (monitorPromises (monitor (snd (awaitRace P one monitorId t evs h)))) k = Some c
               \<and> timeoutId c = Some tid)
           \<or> map_of (timers (monitor (snd (awaitRace P one monitorId t evs h)))) tid = None"
  using assms
proof (induction evs arbitrary: h)
  case Nil
  then show ?case by (simp split: option.splits)
next
  case (Cons e es)
  show ?case
  proof (cases "racePromise one monitorId h = None \<and> ownWaitSettled one e = None")
    case False
    then show ?thesis using Cons.prems by (auto split: option.splits)
  next
    case True
    then have eq: "awaitRace P one monitorId t (e # es) h = awaitRace P one monitorId t es (step P e h)"
      by simp
    show ?thesis unfolding eq
      by (rule Cons.IH) (rule timer_kept_or_gone_step [OF Cons.prems])
  qed
qed

subsection \<open>Monitor ids stay distinct\<close>

text \<open>The keys of the \<open>Map\<close> of controllers are distinct in every state that the
  methods and events can reach from a new \<open>ApiMonitor\<close>.\<close>

lemma keys_of_shape: "shape a = shape b \<Longrightarrow> map fst (monitorPromises a) = map fst (monitorPromises b)"
  by (metis shape_keys)

lemma distinct_ids_registerController:
  "distinct (map fst (monitorPromises reg)) \<Longrightarrow>
   distinct (map fst (monitorPromises (registerController now monitorId options reg)))"
  by (simp add: registerController_def Let_def AList.distinct_update)

lemma distinct_ids_cleanupMonitor:
  "distinct (map fst (monitorPromises reg)) \<Longrightarrow>
   distinct (map fst (monitorPromises (cleanupMonitor monitorId reg)))"
  by (simp add: cleanupMonitor_def AList.distinct_delete)

lemma distinct_ids_fold_cleanup:
  "distinct (map fst (monitorPromises reg)) \<Longrightarrow>
   distinct (map fst (monitorPromises (fold cleanupMonitor ids reg)))"
  by (induction ids arbitrary: reg) (simp_all add: distinct_ids_cleanupMonitor)

lemma distinct_ids_step:
  assumes "distinct (map fst (monitorPromises (monitor h)))"
  shows "distinct (map fst (monitorPromises (monitor (step P e h))))"
proof (cases "e = PageClosed")
  case True
  then show ?thesis
    using assms by (simp add: cancelAllMonitors_def distinct_ids_fold_cleanup)
next
  case False
  then show ?thesis
    using assms keys_of_shape [OF shape_step [of e P h]] by simp
qed

lemma distinct_ids_awaitRace:
  "distinct (map fst (monitorPromises (monitor h))) \<Longrightarrow>
   distinct (map fst (monitorPromises (monitor (snd (awaitRace P one monitorId t evs h)))))"
  by (induction evs arbitrary: h) (simp_all add: distinct_ids_step split: option.splits del: step.simps)

lemma distinct_ids_waitForResponse:
  assumes "distinct (map fst (monitorPromises (monitor h)))"
  shows "distinct (map fst (monitorPromises (monitor (snd (waitForResponse P now0 now1 monitorId t evs h)))))"
proof -
  have "distinct (map fst (monitorPromises (monitor (snd (awaitRace P one monitorId t evs h)))))" for one
    using assms by (rule distinct_ids_awaitRace)
  then show ?thesis
    using assms
    by (simp add: waitForResponse_def Let_def distinct_ids_cleanupMonitor split: settlement.splits)
qed

lemma distinct_ids_perform:
  "distinct (map fst (monitorPromises (monitor h))) \<Longrightarrow>
   distinct (map fst (monitorPromises (monitor (perform P a h))))"
  by (cases a)
     (simp_all add: distinct_ids_step distinct_ids_waitForResponse cancelMonitor_def
        cancelAllMonitors_def distinct_ids_cleanupMonitor distinct_ids_fold_cleanup
        distinct_ids_registerController startMonitoringAll_def startMonitoringSpecificPath_def
        startMonitoringRpcMethod_def startMonitoringBroadcastRPC_def armWaiter_def
        del: step.simps)

lemma distinct_ids_run: "distinct (map fst (monitorPromises (monitor (run P acts))))"
proof -
  have "distinct (map fst (monitorPromises (monitor h))) \<Longrightarrow>
        distinct (map fst (monitorPromises (monitor (fold (perform P) acts h))))" for h
    by (induction acts arbitrary: h) (simp_all add: distinct_ids_perform)
  then show ?thesis
    by (simp add: run_def newHarness_def newApiMonitor_def)
qed

subsection \<open>The sample inputs, evaluated\<close>

lemma routeHarness_eq:
  "routeHarness =
     \<lparr>monitor =
        \<lparr>monitorPromises =
           [(''path_monitor_1000'',
             \<lparr>serial = 0, promiseState = None, timeoutId = Some 0,
              isResolved = False, isRejected = False\<rparr>)],
         monitorStartTimes = [(''path_monitor_1000'', 1000)],
         monitorPaths = [(''path_monitor_1000'', ''route'')],
         monitorOptions = [(''path_monitor_1000'', routeOptions)],
         capturedRequests = [(''all'', []), (''path_monitor_1000'', [])],
         capturedResponses = [(''all'', []), (''path_monitor_1000'', [])],
         monitorMethods = [],
         timers = [(0, ''path_monitor_1000'', routeOptions)],
         nextTimer = 1, nextSerial = 1, settleLog = []\<rparr>,
      waiters = [(0, ''path_monitor_1000'', routeOptions)],
      nextWaiter = 1\<rparr>"
  by (simp add: routeHarness_def startMonitoringSpecificPath_def registerController_def
      armWaiter_def newHarness_def newApiMonitor_def createPromiseController_def
      timeoutSet_def routeOptions_def Let_def)

lemma showInt_5000: "showInt 5000 = ''5000''"
  by (simp add: showInt_def showNat.simps)

lemma routeHarness_after_response:
  "step (\<lambda>s. None) (ResponseSeen 1200 routeResponse) routeHarness =
     routeHarness\<lparr>monitor := (monitor routeHarness)
       \<lparr>monitorPromises :=
           [(''path_monitor_1000'',
             \<lparr>serial = 0, promiseState = Some (Fulfilled routeResponse), timeoutId = Some 0,
              isResolved = True, isRejected = False\<rparr>)],
        capturedResponses :=
           [(''all'', [\<lparr>cs_url = ''https://api.example/v2/fungible/route'', cs_status = 404,
                        cs_timestamp = 1200, cs_rpc = None, cs_body = None\<rparr>]),
            (''path_monitor_1000'',
               [\<lparr>cs_url = ''https://api.example/v2/fungible/route'', cs_status = 404,
                 cs_timestamp = 1200, cs_rpc = None,
                 cs_body = Some (JObj [(''code'', JNum 5), (''message'', JStr ''no routes found'')])\<rparr>])],
        settleLog := [(0, Fulfilled routeResponse)]\<rparr>\<rparr>"
  by (simp add: routeHarness_eq onResponse_def pushResponse_def listenerResponseBody_def
      parsedPostData_def captureResponse_def getOptions_def pathMatches_def resolveIfPending_def
      settlePromise_def routeOptions_def Let_def routeResponse_def)

subsection \<open>Waiting on an unknown monitor\<close>

text \<open>
  Claim C10: \<open>waitForResponse\<close> on a monitor id that is not in the registry returns at
  once \<open>{success: false, data: null, responseTime: 0}\<close> with the error message
  \<open>Monitor <id> does not exist\<close>; it does not throw and leaves the registry (and every
  pending callback) as it was.
\<close>

theorem c10_unknown_monitor:
  assumes "map_of (monitorPromises (monitor h)) monitorId = None"
  shows "waitForResponse JSON_parse now0 now1 monitorId t evs h =
           (\<lparr>ar_success = False, ar_data = JNull, ar_responseTime = 0,
             ar_error = Some (''Monitor '' @ monitorId @ '' does not exist''),
             ar_rawResponse = None, ar_url = None, ar_status = None, ar_method = None,
             ar_requestId = None, ar_timedOut = None\<rparr>, h)"
  using assms by (simp add: waitForResponse_def)


theorem c10_unknown_monitor_witness:
  "waitForResponse (\<lambda>s. None) 2000 2001 ''path_monitor_1000'' 5000 [] newHarness
     = (\<lparr>ar_success = False, ar_data = JNull, ar_responseTime = 0,
         ar_error = Some ''Monitor path_monitor_1000 does not exist'',
         ar_rawResponse = None, ar_url = None, ar_status = None, ar_method = None,
         ar_requestId = None, ar_timedOut = None\<rparr>, newHarness)"
  using c10_unknown_monitor [of newHarness "''path_monitor_1000''" "\<lambda>s. None" 2000 2001 5000 "[]"]
  by (simp add: newHarness_def newApiMonitor_def)

subsection \<open>Cleanup on every exit path\<close>

text \<open>
  Claim C2: for a registered monitor id, \<open>waitForResponse\<close> returns with the monitor
  removed from the registry, whatever traffic, timer, Playwright and page-close events
  run during the wait and whether the wait ends with a captured response, a timeout or
  an error: the controller, start time, path, options and RPC method entries are gone,
  the controller's timeout timer is no longer pending, and the number of active
  monitors has strictly decreased. The wait itself removes that one monitor: the count
  is exactly one less than before, unless the page closes during the wait, whose
  \<open>close\<close> callback cancels every monitor and leaves none. The keys of the \<open>Map\<close> are
  distinct, as \<open>distinct_ids_run\<close> shows of every reachable state.
\<close>

theorem c2_wait_removes_monitor:
  assumes reg: "map_of (monitorPromises (monitor h)) monitorId = Some c"
    and wf: "distinct (map fst (monitorPromises (monitor h)))"
  shows "let reg' = monitor (snd (waitForResponse JSON_parse now0 now1 monitorId t evs h)) in
           map_of (monitorPromises reg') monitorId = None
         \<and> map_of (monitorStartTimes reg') monitorId = None
         \<and> map_of (monitorPaths reg') monitorId = None
         \<and> map_of (monitorOptions reg') monitorId = None
         \<and> map_of (monitorMethods reg') monitorId = None
         \<and> (\<forall>tid. timeoutId c = Some tid \<longrightarrow> map_of (timers reg') tid = None)
         \<and> getActiveMonitorsCount reg' < getActiveMonitorsCount (monitor h)
         \<and> (Suc (getActiveMonitorsCount reg') = getActiveMonitorsCount (monitor h)
            \<or> getActiveMonitorsCount reg' = 0)
         \<and> (PageClosed \<notin> set evs \<longrightarrow>
              Suc (getActiveMonitorsCount reg') = getActiveMonitorsCount (monitor h))"
proof -
  define raced where
    "raced = awaitRace JSON_parse (oneTime (getOptions (monitor h) monitorId)) monitorId t evs h"
  define reg1 where "reg1 = monitor (snd raced)"
  have after: "monitor (snd (waitForResponse JSON_parse now0 now1 monitorId t evs h))
                 = cleanupMonitor monitorId reg1"
    using reg by (simp add: waitForResponse_def Let_def raced_def reg1_def split: settlement.splits)
  have registered: "0 < getActiveMonitorsCount (monitor h)"
    using reg by (cases "monitorPromises (monitor h)") (simp_all add: getActiveMonitorsCount_def)
  have same: "Suc (getActiveMonitorsCount (cleanupMonitor monitorId reg1))
                = getActiveMonitorsCount (monitor h)"
    if sh: "shape reg1 = shape (monitor h)"
  proof -
    from sh have "map_of (shape reg1) monitorId = map_of (shape (monitor h)) monitorId" by simp
    with reg obtain c1 where c1: "map_of (monitorPromises reg1) monitorId = Some c1"
      by (auto simp: shape_lookup)
    from sh have keys: "map fst (monitorPromises reg1) = map fst (monitorPromises (monitor h))"
      by (rule keys_of_shape)
    with wf have wf1: "distinct (map fst (monitorPromises reg1))" by simp
    have len: "length (monitorPromises reg1) = length (monitorPromises (monitor h))"
      using keys by (metis length_map)
    have "Suc (length (AList.delete monitorId (monitorPromises reg1))) = length (monitorPromises reg1)"
      using wf1 c1 by (rule length_delete_distinct)
    then show ?thesis
      using len by (simp add: getActiveMonitorsCount_def cleanupMonitor_def)
  qed
  have none: "getActiveMonitorsCount (cleanupMonitor monitorId reg1) = 0" if "shape reg1 = []"
    using that by (simp add: shape_def getActiveMonitorsCount_def cleanupMonitor_def)
  have cases: "shape reg1 = shape (monitor h) \<or> shape reg1 = []"
    unfolding reg1_def raced_def by (rule shape_awaitRace_cases)
  have count: "Suc (getActiveMonitorsCount (cleanupMonitor monitorId reg1))
                 = getActiveMonitorsCount (monitor h)
               \<or> getActiveMonitorsCount (cleanupMonitor monitorId reg1) = 0"
    using cases same none by auto
  then have less: "getActiveMonitorsCount (cleanupMonitor monitorId reg1)
                     < getActiveMonitorsCount (monitor h)"
    using registered by auto
  have exact: "PageClosed \<notin> set evs \<longrightarrow>
                 Suc (getActiveMonitorsCount (cleanupMonitor monitorId reg1))
                   = getActiveMonitorsCount (monitor h)"
  proof
    assume "PageClosed \<notin> set evs"
    then have "shape reg1 = shape (monitor h)" by (simp add: reg1_def raced_def)
    then show "Suc (getActiveMonitorsCount (cleanupMonitor monitorId reg1))
                 = getActiveMonitorsCount (monitor h)" by (rule same)
  qed
  have timer: "map_of (timers (cleanupMonitor monitorId reg1)) tid = None"
    if tid: "timeoutId c = Some tid" for tid
  proof -
    have "(\<exists>c. map_of (monitorPromises (monitor h)) monitorId = Some c \<and> timeoutId c = Some tid)
           \<or> map_of (timers (monitor h)) tid = None"
      using reg tid by blast
    then have "(\<exists>c. map_of (monitorPromises reg1) monitorId = Some c \<and> timeoutId c = Some tid)
           \<or> map_of (timers reg1) tid = None"
      unfolding reg1_def raced_def by (rule timer_kept_or_gone_awaitRace)
    then show ?thesis
    proof
      assume "\<exists>c. map_of (monitorPromises reg1) monitorId = Some c \<and> timeoutId c = Some tid"
      then show ?thesis by (auto simp: cleanupMonitor_def AList.delete_conv')
    next
      assume "map_of (timers reg1) tid = None"
      then show ?thesis by (rule timer_gone_cleanupMonitor)
    qed
  qed
  have entries: "map_of (monitorPromises (cleanupMonitor monitorId reg1)) monitorId = None"
    "map_of (monitorStartTimes (cleanupMonitor monitorId reg1)) monitorId = None"
    "map_of (monitorPaths (cleanupMonitor monitorId reg1)) monitorId = None"
    "map_of (monitorOptions (cleanupMonitor monitorId reg1)) monitorId = None"
    "map_of (monitorMethods (cleanupMonitor monitorId reg1)) monitorId = None"
    by (simp_all add: cleanupMonitor_def AList.delete_conv')
  show ?thesis
    unfolding Let_def after
    using entries timer less count exact by simp
qed

theorem c2_wait_removes_monitor_witness:
  "let reg' = monitor (snd (waitForResponse (\<lambda>s. None) 1000 1300 ''path_monitor_1000'' 5000
                 [ResponseSeen 1200 routeResponse] routeHarness)) in
     map_of (monitorPromises reg') ''path_monitor_1000'' = None
   \<and> map_of (monitorStartTimes reg') ''path_monitor_1000'' = None
   \<and> map_of (monitorPaths reg') ''path_monitor_1000'' = None
   \<and> map_of (monitorOptions reg') ''path_monitor_1000'' = None
   \<and> map_of (monitorMethods reg') ''path_monitor_1000'' = None
   \<and> map_of (timers reg') 0 = None
   \<and> getActiveMonitorsCount reg' = 0
   \<and> getActiveMonitorsCount (monitor routeHarness) = 1"
proof -
  have reg: "map_of (monitorPromises (monitor routeHarness)) ''path_monitor_1000''
               = Some \<lparr>serial = 0, promiseState = None, timeoutId = Some 0,
                       isResolved = False, isRejected = False\<rparr>"
    by (simp add: routeHarness_eq)
  have wf: "distinct (map fst (monitorPromises (monitor routeHarness)))"
    by (simp add: routeHarness_eq)
  have n: "getActiveMonitorsCount (monitor routeHarness) = 1"
    by (simp add: routeHarness_eq getActiveMonitorsCount_def)
  have open_page: "PageClosed \<notin> set [ResponseSeen 1200 routeResponse]" by simp
  show ?thesis
    using c2_wait_removes_monitor [OF reg wf, of "\<lambda>s. None" 1000 1300 5000
        "[ResponseSeen 1200 routeResponse]"] n open_page
    by (simp add: Let_def)
qed

text \<open>Two monitors and a page that closes during the wait on the first: the wait
  returns a timeout, and no monitor is left.\<close>

lemma wait_on_closing_page:
  "getActiveMonitorsCount (monitor twoMonitors) = 2
   \<and> getActiveMonitorsCount
        (monitor (snd (waitForResponse (\<lambda>s. None) 1100 6100 ''path_monitor_1000'' 5000
                         [PageClosed] twoMonitors))) = 0
   \<and> ar_timedOut (fst (waitForResponse (\<lambda>s. None) 1100 6100 ''path_monitor_1000'' 5000
                         [PageClosed] twoMonitors)) = Some True"
proof -
  have two: "monitorPromises (monitor twoMonitors) =
      [(''path_monitor_1000'', \<lparr>serial = 0, promiseState = None, timeoutId = Some 0,
                                isResolved = False, isRejected = False\<rparr>),
       (''path_monitor_1001'', \<lparr>serial = 1, promiseState = None, timeoutId = Some 1,
                                isResolved = False, isRejected = False\<rparr>)]"
    by (simp add: twoMonitors_def startMonitoringSpecificPath_def routeHarness_eq
        registerController_def createPromiseController_def timeoutSet_def routeOptions_def
        armWaiter_def Let_def)
  have closed: "monitorPromises (monitor (step (\<lambda>s. None) PageClosed twoMonitors)) = []"
    by simp
  have race: "fst (awaitRace (\<lambda>s. None) True ''path_monitor_1000'' 5000 [PageClosed] twoMonitors)
                = Rejected (waitTimeoutError 5000)"
    "monitorPromises (monitor (snd (awaitRace (\<lambda>s. None) True ''path_monitor_1000'' 5000
                                       [PageClosed] twoMonitors))) = []"
    using closed by (simp_all add: racePromise_def two del: step.simps)
  have opts: "oneTime (getOptions (monitor twoMonitors) ''path_monitor_1000'')"
    by (simp add: twoMonitors_def startMonitoringSpecificPath_def routeHarness_eq
        registerController_def createPromiseController_def timeoutSet_def routeOptions_def
        armWaiter_def Let_def getOptions_def)
  show ?thesis
    using race opts
    by (simp add: waitForResponse_def Let_def two getActiveMonitorsCount_def cleanupMonitor_def
        failedResult_def waitTimeoutError_def del: awaitRace.simps)
qed


subsection \<open>Timeouts are reported, not thrown\<close>

text \<open>
  Claim C6: when the race inside \<open>waitForResponse\<close> is lost to a timeout, either the
  monitor's own timer (which rejects a one-time monitor's promise) or the timer of the
  wait itself, \<open>waitForResponse\<close> returns a result with \<open>success = false\<close>,
  \<open>data = null\<close>, \<open>timedOut = true\<close> and the timeout message as \<open>error\<close>.
\<close>

theorem c6_timeout_reported_not_thrown:
  assumes "map_of (monitorPromises (monitor h)) monitorId \<noteq> None"
    and "fst (awaitRace JSON_parse (oneTime (getOptions (monitor h) monitorId)) monitorId t evs h)
           = Rejected e"
    and "e = waitTimeoutError t \<or> e = monitorTimeoutError t'"
  shows "ar_success (fst (waitForResponse JSON_parse now0 now1 monitorId t evs h)) = False
       \<and> ar_data (fst (waitForResponse JSON_parse now0 now1 monitorId t evs h)) = JNull
       \<and> ar_timedOut (fst (waitForResponse JSON_parse now0 now1 monitorId t evs h)) = Some True
       \<and> ar_error (fst (waitForResponse JSON_parse now0 now1 monitorId t evs h)) = Some (message e)"
  using assms
  by (auto simp: waitForResponse_def Let_def failedResult_def waitTimeoutError_def
      monitorTimeoutError_def)

theorem c6_timeout_reported_not_thrown_witness:
  "ar_success (fst (waitForResponse (\<lambda>s. None) 1000 6001 ''path_monitor_1000'' 5000
      [TimerFired 0] routeHarness)) = False
   \<and> ar_data (fst (waitForResponse (\<lambda>s. None) 1000 6001 ''path_monitor_1000'' 5000
      [TimerFired 0] routeHarness)) = JNull
   \<and> ar_timedOut (fst (waitForResponse (\<lambda>s. None) 1000 6001 ''path_monitor_1000'' 5000
      [TimerFired 0] routeHarness)) = Some True
   \<and> ar_error (fst (waitForResponse (\<lambda>s. None) 1000 6001 ''path_monitor_1000'' 5000
      [TimerFired 0] routeHarness)) = Some ''Monitor timed out (5000ms)''
   \<and> ar_timedOut (fst (waitForResponse (\<lambda>s. None) 1000 6001 ''path_monitor_1000'' 5000
      [] routeHarness)) = Some True
   \<and> ar_error (fst (waitForResponse (\<lambda>s. None) 1000 6001 ''path_monitor_1000'' 5000
      [] routeHarness)) = Some ''Waiting for response timed out (5000ms)''"
proof -
  have reg: "map_of (monitorPromises (monitor routeHarness)) ''path_monitor_1000'' \<noteq> None"
    by (simp add: routeHarness_eq)
  have opts: "getOptions (monitor routeHarness) ''path_monitor_1000'' = routeOptions"
    by (simp add: routeHarness_eq getOptions_def)
  have own: "fst (awaitRace (\<lambda>s. None)
                (oneTime (getOptions (monitor routeHarness) ''path_monitor_1000''))
                ''path_monitor_1000'' 5000 [TimerFired 0] routeHarness)
             = Rejected (monitorTimeoutError (Some 5000))"
    unfolding opts
    by (simp add: routeHarness_eq routeOptions_def racePromise_def timerFired_def
        rejectIfPending_def settlePromise_def)
  have ext: "fst (awaitRace (\<lambda>s. None)
                (oneTime (getOptions (monitor routeHarness) ''path_monitor_1000''))
                ''path_monitor_1000'' 5000 [] routeHarness)
             = Rejected (waitTimeoutError 5000)"
    unfolding opts by (simp add: routeHarness_eq routeOptions_def racePromise_def)
  show ?thesis
    using c6_timeout_reported_not_thrown [OF reg own, of "Some 5000" 1000 6001]
      c6_timeout_reported_not_thrown [OF reg ext, of None 1000 6001]
    by (simp add: monitorTimeoutError_def waitTimeoutError_def showTimeout_def showInt_5000)
qed


subsection \<open>A promise is settled at most once\<close>

lemma pending_not_logged:
  assumes "settledOnce reg" and "map_of (monitorPromises reg) k = Some c"
    and "\<not> isResolved c" and "\<not> isRejected c"
  shows "serial c \<notin> fst ` set (settleLog reg)" and "promiseState c = None"
proof -
  show "serial c \<notin> fst ` set (settleLog reg)"
  proof
    assume "serial c \<in> fst ` set (settleLog reg)"
    then obtain x where x: "(serial c, x) \<in> set (settleLog reg)" by force
    show False
    proof (cases x)
      case (Fulfilled r)
      with x assms show False unfolding settledOnce_def by blast
    next
      case (Rejected e)
      with x assms show False unfolding settledOnce_def by blast
    qed
  qed
  then show "promiseState c = None"
    using assms(1,2) unfolding settledOnce_def
    by (metis fst_conv image_eqI not_None_eq)
qed

lemma settledOnce_settle:
  assumes inv: "settledOnce reg" and c: "map_of (monitorPromises reg) k = Some c"
    and pend: "\<not> isResolved c" "\<not> isRejected c"
    and c': "serial c' = serial c" "promiseState c' = Some x"
            "isResolved c' \<longleftrightarrow> (\<exists>r. x = Fulfilled r)" "isRejected c' \<longleftrightarrow> (\<exists>e. x = Rejected e)"
  shows "settledOnce (reg\<lparr>monitorPromises := AList.update k c' (monitorPromises reg),
                          settleLog := settleLog reg @ [(serial c, x)]\<rparr>)"
proof -
  have fresh: "serial c \<notin> fst ` set (settleLog reg)"
    using pending_not_logged(1) [OF inv c pend] .
  have others: "serial d \<noteq> serial c" if "map_of (monitorPromises reg) j = Some d" "j \<noteq> k" for j d
    using inv c that unfolding settledOnce_def by blast
  have lt: "serial c < nextSerial reg"
    using inv c unfolding settledOnce_def by blast
  have old: "serial d < nextSerial reg
       \<and> (isResolved d \<longleftrightarrow> (\<exists>r. (serial d, Fulfilled r) \<in> set (settleLog reg)))
       \<and> (isRejected d \<longleftrightarrow> (\<exists>e. (serial d, Rejected e) \<in> set (settleLog reg)))
       \<and> (\<forall>s. promiseState d = Some s \<longleftrightarrow> (serial d, s) \<in> set (settleLog reg))"
    if "map_of (monitorPromises reg) j = Some d" for j d
    using inv that unfolding settledOnce_def by blast
  have inj: "j = j'" if "map_of (monitorPromises reg) j = Some d"
      "map_of (monitorPromises reg) j' = Some d'" "serial d = serial d'" for j j' d d'
    using inv that unfolding settledOnce_def by blast
  have d1: "distinct (map fst (settleLog reg))"
    and d2: "\<forall>s \<in> fst ` set (settleLog reg). s < nextSerial reg"
    using inv unfolding settledOnce_def by blast+
  have nolog: "(serial c, y) \<notin> set (settleLog reg)" for y
    using fresh by force
  define reg' where "reg' = reg\<lparr>monitorPromises := AList.update k c' (monitorPromises reg),
                          settleLog := settleLog reg @ [(serial c, x)]\<rparr>"
  have mp: "map_of (monitorPromises reg') j
              = (if j = k then Some c' else map_of (monitorPromises reg) j)" for j
    by (simp add: reg'_def AList.update_conv')
  have lg: "settleLog reg' = settleLog reg @ [(serial c, x)]"
    and ns: "nextSerial reg' = nextSerial reg"
    by (simp_all add: reg'_def)
  have p1: "distinct (map fst (settleLog reg'))"
    using d1 fresh by (simp add: lg)
  have p2: "\<forall>s \<in> fst ` set (settleLog reg'). s < nextSerial reg'"
    using d2 lt by (auto simp: lg ns)
  have p3: "serial d < nextSerial reg'
       \<and> (isResolved d \<longleftrightarrow> (\<exists>r. (serial d, Fulfilled r) \<in> set (settleLog reg')))
       \<and> (isRejected d \<longleftrightarrow> (\<exists>e. (serial d, Rejected e) \<in> set (settleLog reg')))
       \<and> (\<forall>s. promiseState d = Some s \<longleftrightarrow> (serial d, s) \<in> set (settleLog reg'))"
    if jd: "map_of (monitorPromises reg') j = Some d" for j d
  proof (cases "j = k")
    case True
    with jd have "d = c'" by (simp add: mp)
    then show ?thesis using c' lt nolog by (auto simp: lg ns)
  next
    case False
    with jd have m: "map_of (monitorPromises reg) j = Some d" by (simp add: mp)
    from others [OF m False] old [OF m] show ?thesis by (auto simp: lg ns)
  qed
  have p4: "j = j'"
    if a: "map_of (monitorPromises reg') j = Some d" "map_of (monitorPromises reg') j' = Some d'"
      "serial d = serial d'" for j j' d d'
  proof (cases "j = k")
    case jk: True
    show ?thesis
    proof (cases "j' = k")
      case True with jk show ?thesis by simp
    next
      case False
      with a(2) have "map_of (monitorPromises reg) j' = Some d'" by (simp add: mp)
      from others [OF this False] a jk c' show ?thesis by (simp add: mp)
    qed
  next
    case jk: False
    with a(1) have m: "map_of (monitorPromises reg) j = Some d" by (simp add: mp)
    show ?thesis
    proof (cases "j' = k")
      case True
      with others [OF m jk] a c' show ?thesis by (simp add: mp)
    next
      case False
      with a(2) have "map_of (monitorPromises reg) j' = Some d'" by (simp add: mp)
      from inj [OF m this a(3)] show ?thesis .
    qed
  qed
  have q3: "\<forall>j d. map_of (monitorPromises reg') j = Some d \<longrightarrow>
         serial d < nextSerial reg'
       \<and> (isResolved d \<longleftrightarrow> (\<exists>r. (serial d, Fulfilled r) \<in> set (settleLog reg')))
       \<and> (isRejected d \<longleftrightarrow> (\<exists>e. (serial d, Rejected e) \<in> set (settleLog reg')))
       \<and> (\<forall>s. promiseState d = Some s \<longleftrightarrow> (serial d, s) \<in> set (settleLog reg'))"
  proof (intro allI impI)
    fix j d assume "map_of (monitorPromises reg') j = Some d"
    from p3 [OF this] show "serial d < nextSerial reg'
       \<and> (isResolved d \<longleftrightarrow> (\<exists>r. (serial d, Fulfilled r) \<in> set (settleLog reg')))
       \<and> (isRejected d \<longleftrightarrow> (\<exists>e. (serial d, Rejected e) \<in> set (settleLog reg')))
       \<and> (\<forall>s. promiseState d = Some s \<longleftrightarrow> (serial d, s) \<in> set (settleLog reg'))" .
  qed
  have q4: "\<forall>j j' d d'. map_of (monitorPromises reg') j = Some d \<longrightarrow>
         map_of (monitorPromises reg') j' = Some d' \<longrightarrow> serial d = serial d' \<longrightarrow> j = j'"
  proof (intro allI impI)
    fix j j' d d'
    assume "map_of (monitorPromises reg') j = Some d" "map_of (monitorPromises reg') j' = Some d'"
      "serial d = serial d'"
    then show "j = j'" by (rule p4)
  qed
  have "settledOnce reg'"
    unfolding settledOnce_def by (rule conjI [OF p1 conjI [OF p2 conjI [OF q3 q4]]])
  then show ?thesis by (simp add: reg'_def)
qed

lemma settledOnce_resolveIfPending:
  "settledOnce reg \<Longrightarrow> settledOnce (resolveIfPending monitorId r reg)"
proof -
  assume inv: "settledOnce reg"
  show ?thesis
  proof (cases "map_of (monitorPromises reg) monitorId")
    case None
    with inv show ?thesis by (simp add: resolveIfPending_def)
  next
    case (Some c)
    show ?thesis
    proof (cases "isResolved c \<or> isRejected c")
      case True
      with Some inv show ?thesis by (simp add: resolveIfPending_def)
    next
      case False
      then have pend: "\<not> isResolved c" "\<not> isRejected c" by simp_all
      have ps: "promiseState c = None" using pending_not_logged(2) [OF inv Some pend] .
      have "settledOnce (reg\<lparr>monitorPromises :=
               AList.update monitorId (settlePromise (Fulfilled r) (c\<lparr>isResolved := True\<rparr>))
                 (monitorPromises reg),
             settleLog := settleLog reg @ [(serial c, Fulfilled r)]\<rparr>)"
        by (rule settledOnce_settle [OF inv Some pend]) (simp_all add: settlePromise_def ps pend)
      with Some False show ?thesis by (simp add: resolveIfPending_def)
    qed
  qed
qed

lemma settledOnce_rejectIfPending:
  "settledOnce reg \<Longrightarrow> settledOnce (rejectIfPending monitorId e reg)"
proof -
  assume inv: "settledOnce reg"
  show ?thesis
  proof (cases "map_of (monitorPromises reg) monitorId")
    case None
    with inv show ?thesis by (simp add: rejectIfPending_def)
  next
    case (Some c)
    show ?thesis
    proof (cases "isResolved c \<or> isRejected c")
      case True
      with Some inv show ?thesis by (simp add: rejectIfPending_def)
    next
      case False
      then have pend: "\<not> isResolved c" "\<not> isRejected c" by simp_all
      have ps: "promiseState c = None" using pending_not_logged(2) [OF inv Some pend] .
      have "settledOnce (reg\<lparr>monitorPromises :=
               AList.update monitorId (settlePromise (Rejected e) (c\<lparr>isRejected := True\<rparr>))
                 (monitorPromises reg),
             settleLog := settleLog reg @ [(serial c, Rejected e)]\<rparr>)"
        by (rule settledOnce_settle [OF inv Some pend]) (simp_all add: settlePromise_def ps pend)
      with Some False show ?thesis by (simp add: rejectIfPending_def)
    qed
  qed
qed


lemma settledOnce_frame:
  "monitorPromises a = monitorPromises b \<Longrightarrow> settleLog a = settleLog b \<Longrightarrow>
   nextSerial a = nextSerial b \<Longrightarrow> settledOnce a = settledOnce b"
  by (simp add: settledOnce_def)

lemma settledOnce_pushResponse [simp]:
  "settledOnce (pushResponse monitorId r reg) = settledOnce reg"
  by (rule settledOnce_frame) (simp_all add: pushResponse_def)

lemma settledOnce_pushRequest [simp]:
  "settledOnce (pushRequest monitorId r reg) = settledOnce reg"
  by (rule settledOnce_frame) (simp_all add: pushRequest_def)

lemma settledOnce_captureResponse:
  "settledOnce reg \<Longrightarrow> settledOnce (captureResponse monitorId r resp reg)"
  by (simp add: captureResponse_def Let_def settledOnce_resolveIfPending)

lemma settledOnce_urlResponseLoop:
  "settledOnce reg \<Longrightarrow> settledOnce (urlResponseLoop resp ts body ps reg)"
  by (induction resp ts body ps reg rule: urlResponseLoop.induct)
     (simp_all add: settledOnce_captureResponse)

lemma settledOnce_rpcResponseLoop:
  "settledOnce reg \<Longrightarrow> settledOnce (rpcResponseLoop resp ts requestBody responseBody ps reg)"
  by (induction resp ts requestBody responseBody ps reg rule: rpcResponseLoop.induct)
     (simp_all add: settledOnce_captureResponse split: option.splits)

lemma settledOnce_urlRequestLoop:
  "settledOnce reg \<Longrightarrow> settledOnce (urlRequestLoop req ts body ps reg)"
  by (induction req ts body ps reg rule: urlRequestLoop.induct) simp_all

lemma settledOnce_rpcRequestLoop:
  "settledOnce reg \<Longrightarrow> settledOnce (rpcRequestLoop req ts jsonBody ps reg)"
  by (induction req ts jsonBody ps reg rule: rpcRequestLoop.induct) (simp_all split: option.splits)

lemma settledOnce_onRequest:
  "settledOnce reg \<Longrightarrow> settledOnce (onRequest P ts req reg)"
  by (simp add: onRequest_def Let_def settledOnce_urlRequestLoop settledOnce_rpcRequestLoop
      split: option.splits)

lemma settledOnce_onResponse:
  "settledOnce reg \<Longrightarrow> settledOnce (onResponse P ts resp reg)"
  by (simp add: onResponse_def Let_def settledOnce_urlResponseLoop settledOnce_rpcResponseLoop
      split: option.splits)

lemma settledOnce_timers [simp]: "settledOnce (reg\<lparr>timers := ts\<rparr>) = settledOnce reg"
  by (rule settledOnce_frame) simp_all

lemma settledOnce_timerFired:
  "settledOnce reg \<Longrightarrow> settledOnce (timerFired tid reg)"
  by (simp add: timerFired_def settledOnce_rejectIfPending split: option.splits)

lemma settledOnce_cleanupMonitor:
  assumes "settledOnce reg" shows "settledOnce (cleanupMonitor monitorId reg)"
proof -
  have mp: "map_of (monitorPromises (cleanupMonitor monitorId reg)) j
              = (if j = monitorId then None else map_of (monitorPromises reg) j)" for j
    by (simp add: cleanupMonitor_def AList.delete_conv')
  have lg: "settleLog (cleanupMonitor monitorId reg) = settleLog reg"
    and ns: "nextSerial (cleanupMonitor monitorId reg) = nextSerial reg"
    by (simp_all add: cleanupMonitor_def)
  have old: "map_of (monitorPromises reg) j = Some d"
    if "map_of (monitorPromises (cleanupMonitor monitorId reg)) j = Some d" for j d
    using that by (simp add: mp split: if_splits)
  show ?thesis
    unfolding settledOnce_def lg ns
  proof (intro conjI)
    show "distinct (map fst (settleLog reg))"
      and "\<forall>s\<in>fst ` set (settleLog reg). s < nextSerial reg"
      using assms unfolding settledOnce_def by blast+
  next
    show "\<forall>k c. map_of (monitorPromises (cleanupMonitor monitorId reg)) k = Some c \<longrightarrow>
           serial c < nextSerial reg \<and>
           isResolved c = (\<exists>r. (serial c, Fulfilled r) \<in> set (settleLog reg)) \<and>
           isRejected c = (\<exists>e. (serial c, Rejected e) \<in> set (settleLog reg)) \<and>
           (\<forall>s. (promiseState c = Some s) = ((serial c, s) \<in> set (settleLog reg)))"
    proof (intro allI impI)
      fix k c assume "map_of (monitorPromises (cleanupMonitor monitorId reg)) k = Some c"
      from old [OF this] assms
      show "serial c < nextSerial reg \<and>
           isResolved c = (\<exists>r. (serial c, Fulfilled r) \<in> set (settleLog reg)) \<and>
           isRejected c = (\<exists>e. (serial c, Rejected e) \<in> set (settleLog reg)) \<and>
           (\<forall>s. (promiseState c = Some s) = ((serial c, s) \<in> set (settleLog reg)))"
        unfolding settledOnce_def by blast
    qed
  next
    show "\<forall>k k' c c'. map_of (monitorPromises (cleanupMonitor monitorId reg)) k = Some c \<longrightarrow>
           map_of (monitorPromises (cleanupMonitor monitorId reg)) k' = Some c' \<longrightarrow>
           serial c = serial c' \<longrightarrow> k = k'"
    proof (intro allI impI)
      fix k k' c c'
      assume a: "map_of (monitorPromises (cleanupMonitor monitorId reg)) k = Some c"
        "map_of (monitorPromises (cleanupMonitor monitorId reg)) k' = Some c'"
        "serial c = serial c'"
      from old [OF a(1)] old [OF a(2)] a(3) assms show "k = k'"
        unfolding settledOnce_def by blast
    qed
  qed
qed

lemma settledOnce_cancelMonitor:
  "settledOnce reg \<Longrightarrow> settledOnce (cancelMonitor monitorId reg)"
  by (simp add: cancelMonitor_def settledOnce_cleanupMonitor)

lemma settledOnce_fold_cleanup:
  "settledOnce reg \<Longrightarrow> settledOnce (fold cleanupMonitor ids reg)"
  by (induction ids arbitrary: reg) (simp_all add: settledOnce_cleanupMonitor)

lemma settledOnce_cancelAllMonitors:
  "settledOnce reg \<Longrightarrow> settledOnce (cancelAllMonitors reg)"
  by (simp add: cancelAllMonitors_def settledOnce_fold_cleanup)

lemma settledOnce_step:
  "settledOnce (monitor h) \<Longrightarrow> settledOnce (monitor (step P e h))"
  by (cases e)
     (simp_all add: settledOnce_onRequest settledOnce_onResponse settledOnce_timerFired
        waiterResolved_def waiterRejected_def settledOnce_resolveIfPending
        settledOnce_rejectIfPending settledOnce_cancelAllMonitors split: option.splits)

lemma settledOnce_awaitRace:
  "settledOnce (monitor h) \<Longrightarrow> settledOnce (monitor (snd (awaitRace P one monitorId t evs h)))"
  by (induction evs arbitrary: h)
     (simp_all add: settledOnce_step split: option.splits del: step.simps)


lemma settledOnce_registerController:
  assumes inv: "settledOnce reg"
  shows "settledOnce (registerController now monitorId options reg)"
proof -
  define reg' where "reg' = registerController now monitorId options reg"
  obtain c' where mp: "\<And>j. map_of (monitorPromises reg') j
              = (if j = monitorId then Some c' else map_of (monitorPromises reg) j)"
    and c': "serial c' = nextSerial reg" "\<not> isResolved c'" "\<not> isRejected c'"
            "promiseState c' = None"
  proof (cases "timeoutSet options")
    case True
    show ?thesis
      by (rule that [of "(createPromiseController (nextSerial reg))\<lparr>timeoutId := Some (nextTimer reg)\<rparr>"])
         (simp_all add: reg'_def registerController_def Let_def True AList.update_conv'
            createPromiseController_def)
  next
    case False
    show ?thesis
      by (rule that [of "createPromiseController (nextSerial reg)"])
         (simp_all add: reg'_def registerController_def Let_def False AList.update_conv'
            createPromiseController_def)
  qed
  have lg: "settleLog reg' = settleLog reg"
    and ns: "nextSerial reg' = Suc (nextSerial reg)"
    by (simp_all add: reg'_def registerController_def Let_def)
  have d1: "distinct (map fst (settleLog reg))"
    and d2: "\<forall>s \<in> fst ` set (settleLog reg). s < nextSerial reg"
    using inv unfolding settledOnce_def by blast+
  have old: "serial d < nextSerial reg
       \<and> (isResolved d \<longleftrightarrow> (\<exists>r. (serial d, Fulfilled r) \<in> set (settleLog reg)))
       \<and> (isRejected d \<longleftrightarrow> (\<exists>e. (serial d, Rejected e) \<in> set (settleLog reg)))
       \<and> (\<forall>s. promiseState d = Some s \<longleftrightarrow> (serial d, s) \<in> set (settleLog reg))"
    if "map_of (monitorPromises reg) j = Some d" for j d
    using inv that unfolding settledOnce_def by blast
  have inj: "j = j'" if "map_of (monitorPromises reg) j = Some d"
      "map_of (monitorPromises reg) j' = Some d'" "serial d = serial d'" for j j' d d'
    using inv that unfolding settledOnce_def by blast
  have nolog: "(nextSerial reg, y) \<notin> set (settleLog reg)" for y
    using d2 by force
  have p2: "\<forall>s \<in> fst ` set (settleLog reg'). s < nextSerial reg'"
    using d2 by (auto simp: lg ns less_Suc_eq)
  have q3: "\<forall>j d. map_of (monitorPromises reg') j = Some d \<longrightarrow>
         serial d < nextSerial reg'
       \<and> (isResolved d \<longleftrightarrow> (\<exists>r. (serial d, Fulfilled r) \<in> set (settleLog reg')))
       \<and> (isRejected d \<longleftrightarrow> (\<exists>e. (serial d, Rejected e) \<in> set (settleLog reg')))
       \<and> (\<forall>s. promiseState d = Some s \<longleftrightarrow> (serial d, s) \<in> set (settleLog reg'))"
  proof (intro allI impI)
    fix j d assume jd: "map_of (monitorPromises reg') j = Some d"
    show "serial d < nextSerial reg'
       \<and> (isResolved d \<longleftrightarrow> (\<exists>r. (serial d, Fulfilled r) \<in> set (settleLog reg')))
       \<and> (isRejected d \<longleftrightarrow> (\<exists>e. (serial d, Rejected e) \<in> set (settleLog reg')))
       \<and> (\<forall>s. promiseState d = Some s \<longleftrightarrow> (serial d, s) \<in> set (settleLog reg'))"
    proof (cases "j = monitorId")
      case True
      with jd have "d = c'" by (simp add: mp)
      then show ?thesis using c' nolog by (simp add: lg ns)
    next
      case False
      with jd have "map_of (monitorPromises reg) j = Some d" by (simp add: mp)
      from old [OF this] show ?thesis by (simp add: lg ns less_Suc_eq)
    qed
  qed
  have q4: "\<forall>j j' d d'. map_of (monitorPromises reg') j = Some d \<longrightarrow>
         map_of (monitorPromises reg') j' = Some d' \<longrightarrow> serial d = serial d' \<longrightarrow> j = j'"
  proof (intro allI impI)
    fix j j' d d'
    assume a: "map_of (monitorPromises reg') j = Some d" "map_of (monitorPromises reg') j' = Some d'"
      "serial d = serial d'"
    show "j = j'"
    proof (cases "j = monitorId")
      case jk: True
      show ?thesis
      proof (cases "j' = monitorId")
        case True with jk show ?thesis by simp
      next
        case False
        with a(2) have "map_of (monitorPromises reg) j' = Some d'" by (simp add: mp)
        from old [OF this] a jk c' show ?thesis by (simp add: mp)
      qed
    next
      case jk: False
      with a(1) have m: "map_of (monitorPromises reg) j = Some d" by (simp add: mp)
      show ?thesis
      proof (cases "j' = monitorId")
        case True
        with old [OF m] a c' show ?thesis by (simp add: mp)
      next
        case False
        with a(2) have "map_of (monitorPromises reg) j' = Some d'" by (simp add: mp)
        from inj [OF m this a(3)] show ?thesis .
      qed
    qed
  qed
  have p1: "distinct (map fst (settleLog reg'))" using d1 by (simp add: lg)
  have "settledOnce reg'"
    unfolding settledOnce_def by (rule conjI [OF p1 conjI [OF p2 conjI [OF q3 q4]]])
  then show ?thesis by (simp add: reg'_def)
qed

lemma settledOnce_monitorPaths [simp]:
  "settledOnce (reg\<lparr>monitorPaths := ps\<rparr>) = settledOnce reg"
  by (rule settledOnce_frame) simp_all

lemma settledOnce_monitorMethods [simp]:
  "settledOnce (reg\<lparr>monitorMethods := ms\<rparr>) = settledOnce reg"
  by (rule settledOnce_frame) simp_all

lemma monitor_armWaiter [simp]: "monitor (armWaiter monitorId options h) = monitor h"
  by (simp add: armWaiter_def)

lemma settledOnce_waitForResponse:
  "settledOnce (monitor h) \<Longrightarrow>
   settledOnce (monitor (snd (waitForResponse P now0 now1 monitorId t evs h)))"
  by (simp add: waitForResponse_def Let_def settledOnce_cleanupMonitor settledOnce_awaitRace
      split: settlement.splits)

lemma settledOnce_perform:
  "settledOnce (monitor h) \<Longrightarrow> settledOnce (monitor (perform P a h))"
  by (cases a)
     (simp_all add: settledOnce_step settledOnce_waitForResponse settledOnce_cancelMonitor
        settledOnce_cancelAllMonitors settledOnce_registerController
        startMonitoringAll_def startMonitoringSpecificPath_def startMonitoringRpcMethod_def
        startMonitoringBroadcastRPC_def)

lemma settledOnce_fold_perform:
  "settledOnce (monitor h) \<Longrightarrow> settledOnce (monitor (fold (perform P) acts h))"
  by (induction acts arbitrary: h) (simp_all add: settledOnce_perform)

lemma settledOnce_newApiMonitor: "settledOnce newApiMonitor"
  by (simp add: settledOnce_def newApiMonitor_def)

lemma settledOnce_run: "settledOnce (monitor (run P acts))"
  unfolding run_def
  by (rule settledOnce_fold_perform) (simp add: newHarness_def settledOnce_newApiMonitor)


text \<open>
  Claim C1: after any sequence of registrations, traffic events, timer firings,
  Playwright completions, waits and cancellations on a new \<open>ApiMonitor\<close>, no promise has
  been resolved or rejected more than once (each serial occurs at most once in the log
  of \<open>resolve\<close>/\<open>reject\<close> calls), and every registered controller is pending, resolved
  or rejected but never both resolved and rejected; it is marked exactly when its
  promise was settled.
\<close>

theorem c1_settled_at_most_once:
  "distinct (map fst (settleLog (monitor (run JSON_parse acts))))
   \<and> (\<forall>monitorId c. map_of (monitorPromises (monitor (run JSON_parse acts))) monitorId = Some c \<longrightarrow>
        \<not> (isResolved c \<and> isRejected c)
      \<and> (isResolved c \<or> isRejected c \<longleftrightarrow>
           serial c \<in> fst ` set (settleLog (monitor (run JSON_parse acts)))))"
proof -
  define reg where "reg = monitor (run JSON_parse acts)"
  have inv: "settledOnce reg" unfolding reg_def by (rule settledOnce_run)
  then have d1: "distinct (map fst (settleLog reg))" unfolding settledOnce_def by blast
  have ctrl: "\<not> (isResolved c \<and> isRejected c)
      \<and> (isResolved c \<or> isRejected c \<longleftrightarrow> serial c \<in> fst ` set (settleLog reg))"
    if m: "map_of (monitorPromises reg) monitorId = Some c" for monitorId c
  proof -
    have res: "isResolved c \<longleftrightarrow> (\<exists>r. (serial c, Fulfilled r) \<in> set (settleLog reg))"
      and rej: "isRejected c \<longleftrightarrow> (\<exists>e. (serial c, Rejected e) \<in> set (settleLog reg))"
      using inv m unfolding settledOnce_def by blast+
    have one: "x = y" if "(serial c, x) \<in> set (settleLog reg)" "(serial c, y) \<in> set (settleLog reg)"
      for x y
      using d1 that by (meson eq_key_imp_eq_value)
    have "\<not> (isResolved c \<and> isRejected c)"
      using res rej one by blast
    moreover have "isResolved c \<or> isRejected c \<longleftrightarrow> serial c \<in> fst ` set (settleLog reg)"
    proof
      assume "isResolved c \<or> isRejected c"
      with res rej show "serial c \<in> fst ` set (settleLog reg)" by force
    next
      assume "serial c \<in> fst ` set (settleLog reg)"
      then obtain x where x: "(serial c, x) \<in> set (settleLog reg)" by force
      then show "isResolved c \<or> isRejected c"
        using res rej by (cases x) blast+
    qed
    ultimately show ?thesis by simp
  qed
  show ?thesis
    unfolding reg_def [symmetric] using d1 ctrl by blast
qed


lemma run_c1_acts:
  "monitor (run (\<lambda>s. None) c1_acts) =
     (monitor routeHarness)
       \<lparr>monitorPromises :=
           [(''path_monitor_1000'',
             \<lparr>serial = 0, promiseState = Some (Fulfilled routeResponse), timeoutId = Some 0,
              isResolved = True, isRejected = False\<rparr>)],
        capturedResponses :=
           [(''all'', [\<lparr>cs_url = ''https://api.example/v2/fungible/route'', cs_status = 404,
                        cs_timestamp = 1200, cs_rpc = None, cs_body = None\<rparr>]),
            (''path_monitor_1000'',
               [\<lparr>cs_url = ''https://api.example/v2/fungible/route'', cs_status = 404,
                 cs_timestamp = 1200, cs_rpc = None,
                 cs_body = Some (JObj [(''code'', JNum 5), (''message'', JStr ''no routes found'')])\<rparr>])],
        timers := [],
        settleLog := [(0, Fulfilled routeResponse)]\<rparr>"
proof -
  have "run (\<lambda>s. None) c1_acts =
          step (\<lambda>s. None) (TimerFired 0)
            (step (\<lambda>s. None) (WaiterResolved 0 routeResponse)
               (step (\<lambda>s. None) (ResponseSeen 1200 routeResponse) routeHarness))"
    by (simp add: run_def c1_acts_def routeHarness_def)
  then show ?thesis
    unfolding routeHarness_after_response
    by (simp add: routeHarness_eq waiterResolved_def timerFired_def resolveIfPending_def
        rejectIfPending_def)
qed

theorem c1_settled_at_most_once_witness:
  "settleLog (monitor (run (\<lambda>s. None) c1_acts)) = [(0, Fulfilled routeResponse)]
   \<and> map_of (monitorPromises (monitor (run (\<lambda>s. None) c1_acts))) ''path_monitor_1000''
       = Some \<lparr>serial = 0, promiseState = Some (Fulfilled routeResponse), timeoutId = Some 0,
               isResolved = True, isRejected = False\<rparr>
   \<and> distinct (map fst (settleLog (monitor (run (\<lambda>s. None) c1_acts))))"
  using c1_settled_at_most_once [of "\<lambda>s. None" c1_acts]
  by (simp add: run_c1_acts routeHarness_eq)

subsection \<open>Finalization\<close>

lemma error_finalizeResult [simp]:
  "error (finalizeResult nowA nowB nowC r options) = error r"
  by (simp add: finalizeResult_def defaultSuccess_def defaultProgress_def failOnRoute_def
      failOnError_def applyOptions_def stampTiming_def Let_def split: option.splits)

lemma transactionHash_finalizeResult [simp]:
  "transactionHash (finalizeResult nowA nowB nowC r options) = transactionHash r"
  by (simp add: finalizeResult_def defaultSuccess_def defaultProgress_def failOnRoute_def
      failOnError_def applyOptions_def stampTiming_def Let_def split: option.splits)



lemma finalizeResult_options [simp]:
  "success (finalizeResult nowA nowB nowC r
      (Some \<lparr>fo_success = Some b, fo_testProgress = p, fo_routePass = q\<rparr>)) = Some b"
  "testProgress (finalizeResult nowA nowB nowC r
      (Some \<lparr>fo_success = Some b, fo_testProgress = Some p', fo_routePass = q\<rparr>)) = Some p'"
  "routePass (finalizeResult nowA nowB nowC r
      (Some \<lparr>fo_success = Some b, fo_testProgress = p, fo_routePass = Some q'\<rparr>)) = Some q'"
  by (simp_all add: finalizeResult_def defaultSuccess_def defaultProgress_def failOnRoute_def
      failOnError_def applyOptions_def split: option.splits)

lemma recordFailure_facts [simp]:
  "error (result (recordFailure taskId e s)) = Some (message e)"
  "screenshotCalls (recordFailure taskId e s) = screenshotCalls s @ [''bridge-operation-error'']"
  by (simp_all add: recordFailure_def pushScreenshot_def takeScreenshot_def split: option.splits)

subsection \<open>Nothing escapes performBridgeOperation\<close>



subsection \<open>The Route response: no routes found\<close>

text \<open>
  The handler looks for the condition of \<open>hasNoRoutesFoundError\<close> under a status other
  than 201, where a 404 status or \<open>success = false\<close> together with the body gives the
  fixed error text.
\<close>

lemma handleRoute_no_routes:
  assumes "ar_status apiResult \<noteq> Some 201"
    and "ar_status apiResult = Some 404 \<or> \<not> ar_success apiResult"
    and "(typeofObject (ar_data apiResult) \<and> ar_data apiResult \<noteq> JNull
          \<and> getProp (ar_data apiResult) ''message'' = Some (JStr ''no routes found''))
         \<or> (\<exists>s. ar_data apiResult = JStr s \<and> str_includes s ''no routes found'')"
  shows "handleRouteApiResponse JSON_parse now r apiResult =
           (True, (recordApiResponse now r apiResult ''route'' ''/v2/fungible/route'')
                    \<lparr>error := Some ''no routes found'', testProgress := Some routeTested,
                     routePass := Some False\<rparr>)"
proof -
  have "truthy (ar_data apiResult)"
    using assms(3) by (cases "ar_data apiResult") auto
  then have "hasNoRoutesFoundError apiResult"
    using assms(2,3) by (auto simp: hasNoRoutesFoundError_def)
  then show ?thesis
    using assms(1) by (simp add: handleRouteApiResponse_def Let_def)
qed

text \<open>
  Under status 201 the condition is not looked for: a result with \<open>success = false\<close>,
  status 201 and the body \<open>{code: 5, message: "no routes found"}\<close> passes the handler.
  No wait returns such a result (see \<open>waited_body_success\<close> below), and the pipeline
  hands the handler successful results only.
\<close>

lemma handleRoute_status_201_unchecked:
  "\<not> ar_success failed201Result
   \<and> hasNoRoutesFoundError failed201Result
   \<and> fst (handleRouteApiResponse (\<lambda>s. None) 7 (initialResult 0) failed201Result) = False
   \<and> error (snd (handleRouteApiResponse (\<lambda>s. None) 7 (initialResult 0) failed201Result)) = None
   \<and> routePass (snd (handleRouteApiResponse (\<lambda>s. None) 7 (initialResult 0) failed201Result))
       = Some True"
  by (simp add: failed201Result_def handleRouteApiResponse_def hasNoRoutesFoundError_def
      embeddedError_def recordApiResponse_def initialResult_def Let_def joinWith_def
      quoteJSON_def escapeChar_def showInt_def showNat.simps)

text \<open>A result of \<open>waitForResponse\<close> that carries a body is a captured response: the two
  failure results have \<open>data = null\<close>.\<close>

lemma waited_body_success:
  assumes "truthy (ar_data (fst (waitForResponse JSON_parse now0 now1 monitorId t evs h)))"
  shows "ar_success (fst (waitForResponse JSON_parse now0 now1 monitorId t evs h))"
  using assms
  by (auto simp: waitForResponse_def Let_def capturedResult_def failedResult_def
      split: if_splits settlement.splits simp del: awaitRace.simps)

lemma awaitRouteApi_body_success:
  assumes "awaitRouteApi JSON_parse env s = (Inr apiResult, s')" and "truthy (ar_data apiResult)"
  shows "ar_success apiResult"
proof (cases "route_enterAmount env")
  case (Inl e)
  then show ?thesis using assms(1) by (simp add: awaitRouteApi_def Let_def)
next
  case (Inr amountEntered)
  then have "apiResult =
      fst (waitForResponse JSON_parse (route_waitEntered env) (route_waitEnded env)
             (route_monitorId env) 5000 (route_eventsDuringWait env)
             (fold (step JSON_parse) (route_eventsBeforeWait env)
                (startMonitoringSpecificPath (route_registeredAt env) ''route'' ''POST''
                   (route_monitorId env) routeOptions (apiMonitor s))))"
    using assms(1) by (auto simp: awaitRouteApi_def Let_def)
  then show ?thesis using assms(2) waited_body_success by simp
qed

lemma no_routes_body_truthy:
  assumes "(typeofObject d \<and> d \<noteq> JNull \<and> getProp d ''message'' = Some (JStr ''no routes found''))
         \<or> (\<exists>s. d = JStr s \<and> str_includes s ''no routes found'')"
  shows "truthy d"
  using assms by (cases d) auto

lemma bridgeFlow_route_refused:
  assumes "st_setupWalletConnection stages (beginOperation taskId s0) = (Inr True, s3)"
    and "st_setupBridgeTransaction stages s3 = (Inr True, s4)"
    and "st_processAmountAndMonitorRoute stages s4 = (Inr False, s5)"
  shows "bridgeFlow taskId stages s0 =
           (Inr \<lparr>fo_success = Some False, fo_testProgress = Some routeTested,
                 fo_routePass = Some False\<rparr>, s5)"
  by (simp add: bridgeFlow_def Let_def assms)

text \<open>
  Claim C3: in a run of \<open>performBridgeOperation\<close> whose first two stages pass, let
  \<open>apiResult\<close> be what the wait on the Route monitor returns. If its status is 404 or
  its \<open>success\<close> is false, and its body is an object (or array) whose \<open>message\<close> is
  \<open>no routes found\<close> (as in \<open>{code: 5, message: "no routes found"}\<close>) or a string that
  contains \<open>no routes found\<close>, then the stage hands it to the Route handler, which
  records the response and sets \<open>error\<close> to exactly \<open>no routes found\<close>, \<open>testProgress\<close> to
  \<open>routeTested\<close> and \<open>routePass\<close> to false; the stage returns false; no later stage
  runs (the monitor and the screenshot calls are those the stage left); and the
  finalized result has \<open>success = false\<close> with that error, progress and \<open>routePass\<close>.
\<close>

theorem c3_no_routes_found:
  assumes wallet: "st_setupWalletConnection stages (beginOperation taskId (initialState t0 h))
                     = (Inr True, s3)"
    and bridge: "st_setupBridgeTransaction stages s3 = (Inr True, s4)"
    and route: "st_processAmountAndMonitorRoute stages = processAmountAndMonitorRoute JSON_parse env"
    and captured: "awaitRouteApi JSON_parse env s4 = (Inr apiResult, s5)"
    and st: "ar_status apiResult = Some 404 \<or> \<not> ar_success apiResult"
    and body: "(typeofObject (ar_data apiResult) \<and> ar_data apiResult \<noteq> JNull
          \<and> getProp (ar_data apiResult) ''message'' = Some (JStr ''no routes found''))
         \<or> (\<exists>s. ar_data apiResult = JStr s \<and> str_includes s ''no routes found'')"
  shows "st_processAmountAndMonitorRoute stages s4 =
           (Inr False,
            s5\<lparr>result := (recordApiResponse (route_handledAt env) (result s5) apiResult
                            ''route'' ''/v2/fungible/route'')
                    \<lparr>error := Some ''no routes found'', testProgress := Some routeTested,
                     routePass := Some False\<rparr>\<rparr>)
     \<and> success (result (performBridgeOperation taskId t0 nowA nowB nowC stages h)) = Some False
     \<and> error (result (performBridgeOperation taskId t0 nowA nowB nowC stages h))
           = Some ''no routes found''
     \<and> testProgress (result (performBridgeOperation taskId t0 nowA nowB nowC stages h))
           = Some routeTested
     \<and> routePass (result (performBridgeOperation taskId t0 nowA nowB nowC stages h)) = Some False
     \<and> apiMonitor (performBridgeOperation taskId t0 nowA nowB nowC stages h) = apiMonitor s5
     \<and> screenshotCalls (performBridgeOperation taskId t0 nowA nowB nowC stages h)
           = screenshotCalls s5"
proof -
  define s6 where "s6 = s5\<lparr>result := (recordApiResponse (route_handledAt env) (result s5) apiResult
                                ''route'' ''/v2/fungible/route'')
                    \<lparr>error := Some ''no routes found'', testProgress := Some routeTested,
                     routePass := Some False\<rparr>\<rparr>"
  have ok: "ar_success apiResult"
    using captured no_routes_body_truthy [OF body] by (rule awaitRouteApi_body_success)
  with st have "ar_status apiResult = Some 404" by simp
  then have st1: "ar_status apiResult \<noteq> Some 201"
    and st2: "ar_status apiResult = Some 404 \<or> \<not> ar_success apiResult"
    by simp_all
  have handled: "handleRouteApiResponse JSON_parse (route_handledAt env) (result s5) apiResult =
           (True, (recordApiResponse (route_handledAt env) (result s5) apiResult
                     ''route'' ''/v2/fungible/route'')
                    \<lparr>error := Some ''no routes found'', testProgress := Some routeTested,
                     routePass := Some False\<rparr>)"
    using st1 st2 body by (rule handleRoute_no_routes)
  have stage: "st_processAmountAndMonitorRoute stages s4 = (Inr False, s6)"
    using captured ok by (simp add: route processAmountAndMonitorRoute_def handled Let_def s6_def)
  from bridgeFlow_route_refused [OF wallet bridge stage]
  have final: "performBridgeOperation taskId t0 nowA nowB nowC stages h =
            s6\<lparr>result := finalizeResult nowA nowB nowC (result s6)
                 (Some \<lparr>fo_success = Some False, fo_testProgress = Some routeTested,
                        fo_routePass = Some False\<rparr>)\<rparr>"
    by (simp add: performBridgeOperation_def)
  have "success (result (performBridgeOperation taskId t0 nowA nowB nowC stages h)) = Some False"
    and "error (result (performBridgeOperation taskId t0 nowA nowB nowC stages h))
           = Some ''no routes found''"
    and "testProgress (result (performBridgeOperation taskId t0 nowA nowB nowC stages h))
           = Some routeTested"
    and "routePass (result (performBridgeOperation taskId t0 nowA nowB nowC stages h)) = Some False"
    and "apiMonitor (performBridgeOperation taskId t0 nowA nowB nowC stages h) = apiMonitor s5"
    and "screenshotCalls (performBridgeOperation taskId t0 nowA nowB nowC stages h)
           = screenshotCalls s5"
    unfolding final by (simp_all add: s6_def)
  with stage show ?thesis unfolding s6_def by simp
qed

lemma wait_on_routeHarness:
  "fst (waitForResponse (\<lambda>s. None) 1100 1300 ''path_monitor_1000'' 5000
          [ResponseSeen 1200 routeResponse] routeHarness)
     = capturedResult (\<lambda>s. None) 300 routeResponse"
proof -
  have pend: "racePromise True ''path_monitor_1000'' routeHarness = None"
    by (simp add: racePromise_def routeHarness_eq)
  have "awaitRace (\<lambda>s. None) True ''path_monitor_1000'' 5000
               [ResponseSeen 1200 routeResponse] routeHarness
          = awaitRace (\<lambda>s. None) True ''path_monitor_1000'' 5000 []
              (step (\<lambda>s. None) (ResponseSeen 1200 routeResponse) routeHarness)"
    using pend by (simp del: step.simps)
  moreover have "fst (awaitRace (\<lambda>s. None) True ''path_monitor_1000'' 5000 []
              (step (\<lambda>s. None) (ResponseSeen 1200 routeResponse) routeHarness))
          = Fulfilled routeResponse"
    unfolding routeHarness_after_response by (simp add: racePromise_def routeHarness_eq)
  ultimately have "fst (awaitRace (\<lambda>s. None) True ''path_monitor_1000'' 5000
               [ResponseSeen 1200 routeResponse] routeHarness) = Fulfilled routeResponse"
    by (simp only:)
  moreover have "getOptions (monitor routeHarness) ''path_monitor_1000'' = routeOptions"
    and "map_of (monitorPromises (monitor routeHarness)) ''path_monitor_1000'' \<noteq> None"
    and "map_of (monitorStartTimes (monitor routeHarness)) ''path_monitor_1000'' = Some 1000"
    and "oneTime routeOptions"
    by (simp_all add: routeHarness_eq getOptions_def routeOptions_def)
  ultimately show ?thesis
    by (auto simp: waitForResponse_def Let_def simp del: awaitRace.simps)
qed

lemma beginOperation_new:
  "apiMonitor (beginOperation taskId (initialState t0 newHarness)) = newHarness"
  by (simp add: beginOperation_def initialState_def Let_def pushScreenshot_def takeScreenshot_def
      initialResult_def newHarness_def newApiMonitor_def cancelAllMonitors_def)

theorem c3_no_routes_found_witness:
  "success (result (performBridgeOperation ''0'' 1000 2000 2000 2000 scenarioA_stages newHarness))
     = Some False
   \<and> error (result (performBridgeOperation ''0'' 1000 2000 2000 2000 scenarioA_stages newHarness))
     = Some ''no routes found''
   \<and> testProgress (result (performBridgeOperation ''0'' 1000 2000 2000 2000 scenarioA_stages newHarness))
     = Some routeTested
   \<and> routePass (result (performBridgeOperation ''0'' 1000 2000 2000 2000 scenarioA_stages newHarness))
     = Some False"
proof -
  define apiResult where "apiResult = capturedResult (\<lambda>s. None) 300 routeResponse"
  define s4 where "s4 = beginOperation ''0'' (initialState 1000 newHarness)"
  define s5 where "s5 = s4\<lparr>apiMonitor := snd (waitForResponse (\<lambda>s. None) 1100 1300
                          ''path_monitor_1000'' 5000 [ResponseSeen 1200 routeResponse] routeHarness)\<rparr>"
  have st: "ar_status apiResult = Some 404 \<or> \<not> ar_success apiResult"
    by (simp add: apiResult_def capturedResult_def routeResponse_def)
  have body: "(typeofObject (ar_data apiResult) \<and> ar_data apiResult \<noteq> JNull
          \<and> getProp (ar_data apiResult) ''message'' = Some (JStr ''no routes found''))
         \<or> (\<exists>s. ar_data apiResult = JStr s \<and> str_includes s ''no routes found'')"
    by (simp add: apiResult_def capturedResult_def decodeCaptured_def routeResponse_def)
  have w1: "st_setupWalletConnection scenarioA_stages (beginOperation ''0'' (initialState 1000 newHarness))
              = (Inr True, s4)"
    and w2: "st_setupBridgeTransaction scenarioA_stages s4 = (Inr True, s4)"
    and w3: "st_processAmountAndMonitorRoute scenarioA_stages
               = processAmountAndMonitorRoute (\<lambda>s. None) scenarioA_env"
    by (simp_all add: scenarioA_stages_def passStage_def s4_def)
  have w4: "awaitRouteApi (\<lambda>s. None) scenarioA_env s4 = (Inr apiResult, s5)"
    by (simp add: awaitRouteApi_def scenarioA_env_def Let_def s4_def beginOperation_new
        routeHarness_def [symmetric] wait_on_routeHarness apiResult_def s5_def)
  from c3_no_routes_found [OF w1 w2 w3 w4 st body, of 2000 2000 2000] show ?thesis
    by (simp only:)
qed

subsection \<open>The Route response: an error inside a 201 body\<close>

text \<open>
  Claim C5, as stated, is about every response with status 201. At the input below
  (status 201, body the plain text \<open>Internal Server Error\<close>) the stringified body
  contains \<open>Error\<close>, and yet the handler does not abort and reports \<open>routePass = true\<close>:
  a body that is not an object is not scanned.
\<close>

theorem c5_text_body_not_scanned:
  "ar_status c5_apiResult = Some 201
   \<and> str_includes (JSON_stringify (ar_data c5_apiResult)) ''Error''
   \<and> fst (handleRouteApiResponse (\<lambda>s. None) 7 (initialResult 0) c5_apiResult) = False
   \<and> error (snd (handleRouteApiResponse (\<lambda>s. None) 7 (initialResult 0) c5_apiResult)) = None
   \<and> routePass (snd (handleRouteApiResponse (\<lambda>s. None) 7 (initialResult 0) c5_apiResult))
       = Some True"
  by (simp add: c5_apiResult_def handleRouteApiResponse_def embeddedError_def
      recordApiResponse_def initialResult_def Let_def quoteJSON_def escapeChar_def)

text \<open>
  Claim C5, amended: for a Route response with status 201 whose body is an object or an
  array, the handler searches the stringified body for \<open>error\<close> and \<open>Error\<close>: if it
  contains either, the handler returns the abort flag and sets \<open>error\<close> to the
  stringified body, \<open>testProgress\<close> to \<open>routeTested\<close> and \<open>routePass\<close> to false, and if it
  contains neither, the response passes. A 201 body that is not an object or an array
  (text, a number, a boolean, \<open>null\<close>) is never searched: whatever it contains, the
  response passes, with \<open>testProgress = routeTested\<close> and \<open>routePass = true\<close>.
\<close>

theorem c5_embedded_error_in_201:
  assumes "ar_status apiResult = Some 201"
  shows "(typeofObject (ar_data apiResult) \<and> ar_data apiResult \<noteq> JNull
          \<and> (str_includes (JSON_stringify (ar_data apiResult)) ''error''
             \<or> str_includes (JSON_stringify (ar_data apiResult)) ''Error'')
          \<longrightarrow> handleRouteApiResponse JSON_parse now r apiResult =
                (True, (recordApiResponse now r apiResult ''route'' ''/v2/fungible/route'')
                         \<lparr>error := Some (JSON_stringify (ar_data apiResult)),
                          testProgress := Some routeTested, routePass := Some False\<rparr>))
       \<and> (typeofObject (ar_data apiResult) \<and> ar_data apiResult \<noteq> JNull
          \<and> \<not> str_includes (JSON_stringify (ar_data apiResult)) ''error''
          \<and> \<not> str_includes (JSON_stringify (ar_data apiResult)) ''Error''
          \<longrightarrow> handleRouteApiResponse JSON_parse now r apiResult =
                (False, (recordApiResponse now r apiResult ''route'' ''/v2/fungible/route'')
                          \<lparr>testProgress := Some routeTested, routePass := Some True\<rparr>))
       \<and> (\<not> typeofObject (ar_data apiResult) \<or> ar_data apiResult = JNull
          \<longrightarrow> handleRouteApiResponse JSON_parse now r apiResult =
                (False, (recordApiResponse now r apiResult ''route'' ''/v2/fungible/route'')
                          \<lparr>testProgress := Some routeTested, routePass := Some True\<rparr>))"
proof -
  have obj: "truthy (ar_data apiResult)"
    if "typeofObject (ar_data apiResult)" "ar_data apiResult \<noteq> JNull"
    using that by (cases "ar_data apiResult") auto
  have scanned: "embeddedError apiResult"
    if "typeofObject (ar_data apiResult)" "ar_data apiResult \<noteq> JNull"
      "str_includes (JSON_stringify (ar_data apiResult)) ''error''
       \<or> str_includes (JSON_stringify (ar_data apiResult)) ''Error''"
    using that obj by (simp add: embeddedError_def)
  have clean: "\<not> embeddedError apiResult"
    if "\<not> str_includes (JSON_stringify (ar_data apiResult)) ''error''"
      "\<not> str_includes (JSON_stringify (ar_data apiResult)) ''Error''"
    using that by (simp add: embeddedError_def)
  have skipped: "\<not> embeddedError apiResult"
    if "\<not> typeofObject (ar_data apiResult) \<or> ar_data apiResult = JNull"
    using that by (auto simp: embeddedError_def)
  show ?thesis
    using assms scanned clean skipped
    by (auto simp: handleRouteApiResponse_def Let_def)
qed

theorem c5_embedded_error_in_201_witness:
  "fst (handleRouteApiResponse (\<lambda>s. None) 7 (initialResult 0) c5_errorBody)
   \<and> error (snd (handleRouteApiResponse (\<lambda>s. None) 7 (initialResult 0) c5_errorBody))
       = Some (''{'' @ [CHR 0x22] @ ''error'' @ [CHR 0x22] @ '':'' @ [CHR 0x22] @ ''rate limited''
               @ [CHR 0x22] @ ''}'')
   \<and> testProgress (snd (handleRouteApiResponse (\<lambda>s. None) 7 (initialResult 0) c5_errorBody))
       = Some routeTested
   \<and> routePass (snd (handleRouteApiResponse (\<lambda>s. None) 7 (initialResult 0) c5_errorBody))
       = Some False
   \<and> \<not> fst (handleRouteApiResponse (\<lambda>s. None) 7 (initialResult 0)
              (c5_errorBody\<lparr>ar_data := JObj []\<rparr>))
   \<and> \<not> fst (handleRouteApiResponse (\<lambda>s. None) 7 (initialResult 0)
              (c5_errorBody\<lparr>ar_data := JStr ''error''\<rparr>))
   \<and> routePass (snd (handleRouteApiResponse (\<lambda>s. None) 7 (initialResult 0)
                       (c5_errorBody\<lparr>ar_data := JStr ''error''\<rparr>))) = Some True"
proof -
  have s: "JSON_stringify (ar_data c5_errorBody)
             = ''{'' @ [CHR 0x22] @ ''error'' @ [CHR 0x22] @ '':'' @ [CHR 0x22] @ ''rate limited''
               @ [CHR 0x22] @ ''}''"
    by (simp add: c5_errorBody_def c5_apiResult_def joinWith_def quoteJSON_def escapeChar_def)
  have a: "ar_status c5_errorBody = Some 201"
    and a1: "typeofObject (ar_data c5_errorBody) \<and> ar_data c5_errorBody \<noteq> JNull
       \<and> (str_includes (JSON_stringify (ar_data c5_errorBody)) ''error''
          \<or> str_includes (JSON_stringify (ar_data c5_errorBody)) ''Error'')"
    unfolding s by (simp_all add: c5_errorBody_def c5_apiResult_def)
  have b: "ar_status (c5_errorBody\<lparr>ar_data := JObj []\<rparr>) = Some 201"
    and b1: "typeofObject (ar_data (c5_errorBody\<lparr>ar_data := JObj []\<rparr>))
       \<and> ar_data (c5_errorBody\<lparr>ar_data := JObj []\<rparr>) \<noteq> JNull
       \<and> \<not> str_includes (JSON_stringify (ar_data (c5_errorBody\<lparr>ar_data := JObj []\<rparr>))) ''error''
       \<and> \<not> str_includes (JSON_stringify (ar_data (c5_errorBody\<lparr>ar_data := JObj []\<rparr>))) ''Error''"
    by (simp_all add: c5_errorBody_def c5_apiResult_def joinWith_def)
  have c: "ar_status (c5_errorBody\<lparr>ar_data := JStr ''error''\<rparr>) = Some 201"
    and c1: "\<not> typeofObject (ar_data (c5_errorBody\<lparr>ar_data := JStr ''error''\<rparr>))
       \<or> ar_data (c5_errorBody\<lparr>ar_data := JStr ''error''\<rparr>) = JNull"
    by (simp_all add: c5_errorBody_def c5_apiResult_def)
  show ?thesis
    using c5_embedded_error_in_201 [OF a, of "\<lambda>s. None" 7 "initialResult 0"] a1
      c5_embedded_error_in_201 [OF b, of "\<lambda>s. None" 7 "initialResult 0"] b1
      c5_embedded_error_in_201 [OF c, of "\<lambda>s. None" 7 "initialResult 0"] c1
      s
    by simp
qed

subsection \<open>The broadcast response\<close>









subsection \<open>A failed simulation\<close>

lemma simulate_nonzero_code:
  assumes "truthy (ar_data rpcResult)"
    and "\<not> truthyO (getProp (ar_data rpcResult) ''error'')"
    and "parseSimulateResult JSON_parse atob (ar_data rpcResult) = Some sim"
    and "getProp sim ''code'' = Some c" and "c \<noteq> JNum 0"
    and "getProp sim ''raw_log'' = Some (JStr ''insufficient funds'')"
  shows "fst (handleSimulateRpcResponse JSON_parse atob now r rpcResult)
       \<and> error (snd (handleSimulateRpcResponse JSON_parse atob now r rpcResult))
           = Some ''Transaction simulation failed: insufficient funds''"
proof -
  have "truthy sim" using assms(4) by (cases sim) auto
  then show ?thesis
    using assms by (simp add: handleSimulateRpcResponse_def Let_def orElse_def)
qed

lemma scenarioE_previewRoute:
  "\<exists>s. previewRoute scenarioE_parse ''0'' scenarioE_env
          (beginOperation ''0'' (initialState 1000 newHarness)) = (Inr True, s)
      \<and> error (result s) = None
      \<and> monitorPaths (monitor (apiMonitor s)) = []
      \<and> monitorPromises (monitor (apiMonitor s)) = []
      \<and> monitorMethods (monitor (apiMonitor s)) = []
      \<and> monitorOptions (monitor (apiMonitor s)) = []
      \<and> monitorStartTimes (monitor (apiMonitor s)) = []"
  by (simp add: previewRoute_def scenarioE_env_def Let_def beginOperation_new
      startMonitoringSpecificPath_def registerController_def armWaiter_def newHarness_def
      newApiMonitor_def createPromiseController_def timeoutSet_def routeOptions_def
      waitForResponse_def getOptions_def racePromise_def cleanupMonitor_def failedResult_def
      pushScreenshot_def takeScreenshot_def beginOperation_def initialState_def initialResult_def
      cancelAllMonitors_def)

lemma scenarioE_wait:
  assumes "monitorPaths (monitor (apiMonitor s)) = []"
    and "monitorPromises (monitor (apiMonitor s)) = []"
    and "monitorMethods (monitor (apiMonitor s)) = []"
    and "monitorOptions (monitor (apiMonitor s)) = []"
    and "monitorStartTimes (monitor (apiMonitor s)) = []"
  shows "fst (awaitSimulateRpc scenarioE_parse scenarioE_env s)
           = Inr (Some (capturedResult scenarioE_parse 100 simulateResponse))"
    and "result (snd (awaitSimulateRpc scenarioE_parse scenarioE_env s)) = result s"
proof -
  define h1 where "h1 = startMonitoringRpcMethod 11400 ''abci_query'' ''Simulate''
                     ''simulate_monitor_11400'' simulateOptions (apiMonitor s)"
  have reg: "monitorPromises (monitor h1) =
               [(''simulate_monitor_11400'',
                 \<lparr>serial = nextSerial (monitor (apiMonitor s)), promiseState = None,
                  timeoutId = Some (nextTimer (monitor (apiMonitor s))),
                  isResolved = False, isRejected = False\<rparr>)]"
    and paths: "monitorPaths (monitor h1) = [(''simulate_monitor_11400'', ''Simulate'')]"
    and methods: "monitorMethods (monitor h1) = [(''simulate_monitor_11400'', ''abci_query'')]"
    and opts: "monitorOptions (monitor h1) = [(''simulate_monitor_11400'', simulateOptions)]"
    and starts: "monitorStartTimes (monitor h1) = [(''simulate_monitor_11400'', 11400)]"
    using assms
    by (simp_all add: h1_def startMonitoringRpcMethod_def registerController_def
        createPromiseController_def timeoutSet_def simulateOptions_def Let_def)
  have pend: "racePromise True ''simulate_monitor_11400'' h1 = None"
    by (simp add: racePromise_def reg)
  have seen: "map_of (monitorPromises (monitor (step scenarioE_parse
                 (ResponseSeen 11450 simulateResponse) h1))) ''simulate_monitor_11400''
              = Some \<lparr>serial = nextSerial (monitor (apiMonitor s)),
                      promiseState = Some (Fulfilled simulateResponse),
                      timeoutId = Some (nextTimer (monitor (apiMonitor s))),
                      isResolved = True, isRejected = False\<rparr>"
    by (simp add: onResponse_def Let_def pushResponse_def listenerResponseBody_def
        simulateResponse_def parsedPostData_def scenarioE_parse_def isRpcResponse_def
        paths rpcPathMatches_def getOptions_def opts simulateOptions_def pathMatches_def
        rpcMethodMatches_def methods captureResponse_def resolveIfPending_def reg
        settlePromise_def)
  have "awaitRace scenarioE_parse True ''simulate_monitor_11400'' 15000
               [ResponseSeen 11450 simulateResponse] h1
          = awaitRace scenarioE_parse True ''simulate_monitor_11400'' 15000 []
              (step scenarioE_parse (ResponseSeen 11450 simulateResponse) h1)"
    using pend by (simp del: step.simps)
  moreover have "fst (awaitRace scenarioE_parse True ''simulate_monitor_11400'' 15000 []
              (step scenarioE_parse (ResponseSeen 11450 simulateResponse) h1))
          = Fulfilled simulateResponse"
    using seen by (simp add: racePromise_def del: step.simps)
  ultimately have race: "fst (awaitRace scenarioE_parse True ''simulate_monitor_11400'' 15000
               [ResponseSeen 11450 simulateResponse] h1) = Fulfilled simulateResponse"
    by (simp only:)
  have facts: "getOptions (monitor h1) ''simulate_monitor_11400'' = simulateOptions"
    "map_of (monitorPromises (monitor h1)) ''simulate_monitor_11400'' \<noteq> None"
    "map_of (monitorStartTimes (monitor h1)) ''simulate_monitor_11400'' = Some 11400"
    "oneTime simulateOptions"
    by (simp_all add: getOptions_def opts reg starts simulateOptions_def)
  have w: "fst (waitForResponse scenarioE_parse 11410 11500 ''simulate_monitor_11400'' 15000
             [ResponseSeen 11450 simulateResponse] h1)
           = capturedResult scenarioE_parse 100 simulateResponse"
    using race facts by (auto simp: waitForResponse_def Let_def simp del: awaitRace.simps)
  show "fst (awaitSimulateRpc scenarioE_parse scenarioE_env s)
           = Inr (Some (capturedResult scenarioE_parse 100 simulateResponse))"
    by (simp add: awaitSimulateRpc_def scenarioE_env_def Let_def h1_def [symmetric] w)
  show "result (snd (awaitSimulateRpc scenarioE_parse scenarioE_env s)) = result s"
    by (simp add: awaitSimulateRpc_def scenarioE_env_def Let_def)
qed

lemma bridgeFlow_submit_refused:
  assumes "st_setupWalletConnection stages (beginOperation taskId s0) = (Inr True, s3)"
    and "st_setupBridgeTransaction stages s3 = (Inr True, s4)"
    and "st_processAmountAndMonitorRoute stages s4 = (Inr True, s5)"
    and "st_selectRouteAndGetPreview stages s5 = (Inr (), s6)"
    and "st_previewAndSubmitRoute stages s6 = (Inr False, s7)"
  shows "bridgeFlow taskId stages s0 =
           (Inr \<lparr>fo_success = Some False, fo_testProgress = Some routeTested,
                 fo_routePass = Some False\<rparr>, s7)"
  by (simp add: bridgeFlow_def Let_def assms)

text \<open>
  Claim C8 (Scenario E): the simulation RPC answers with a non-zero code and the
  \<open>raw_log\<close> \<open>insufficient funds\<close>. \<open>previewAndSubmitRoute\<close> stops there: it returns false
  with an error that contains \<open>insufficient funds\<close>, \<open>testProgress = SignTested\<close> and
  \<open>routePass = true\<close>, and no later stage runs. \<open>performBridgeOperation\<close> then finalizes
  with the options it uses for every failure of that stage, so the result it returns
  has \<open>success = false\<close> and the same error, but \<open>testProgress = routeTested\<close> and
  \<open>routePass = false\<close>.
\<close>

theorem c8_simulation_failure_finalized_as_route_failure:
  "fst (previewAndSubmitRoute scenarioE_parse (\<lambda>s. None) ''0'' scenarioE_env
          (beginOperation ''0'' (initialState 1000 newHarness))) = Inr False
   \<and> error (result (snd (previewAndSubmitRoute scenarioE_parse (\<lambda>s. None) ''0'' scenarioE_env
          (beginOperation ''0'' (initialState 1000 newHarness)))))
       = Some ''Transaction simulation failed: insufficient funds''
   \<and> testProgress (result (snd (previewAndSubmitRoute scenarioE_parse (\<lambda>s. None) ''0'' scenarioE_env
          (beginOperation ''0'' (initialState 1000 newHarness))))) = Some SignTested
   \<and> routePass (result (snd (previewAndSubmitRoute scenarioE_parse (\<lambda>s. None) ''0'' scenarioE_env
          (beginOperation ''0'' (initialState 1000 newHarness))))) = Some True
   \<and> error (result (performBridgeOperation ''0'' 1000 12000 12000 12000 scenarioE_stages newHarness))
       = Some ''Transaction simulation failed: insufficient funds''
   \<and> success (result (performBridgeOperation ''0'' 1000 12000 12000 12000 scenarioE_stages newHarness))
       = Some False
   \<and> testProgress (result (performBridgeOperation ''0'' 1000 12000 12000 12000 scenarioE_stages
         newHarness)) = Some routeTested
   \<and> routePass (result (performBridgeOperation ''0'' 1000 12000 12000 12000 scenarioE_stages
         newHarness)) = Some False"
proof -
  define s6 where "s6 = beginOperation ''0'' (initialState 1000 newHarness)"
  define res where "res = capturedResult scenarioE_parse 100 simulateResponse"
  from scenarioE_previewRoute obtain s where
    pv: "previewRoute scenarioE_parse ''0'' scenarioE_env s6 = (Inr True, s)"
    and clean: "monitorPaths (monitor (apiMonitor s)) = []"
      "monitorPromises (monitor (apiMonitor s)) = []"
      "monitorMethods (monitor (apiMonitor s)) = []"
      "monitorOptions (monitor (apiMonitor s)) = []"
      "monitorStartTimes (monitor (apiMonitor s)) = []"
    unfolding s6_def by blast
  obtain out s1 where aw: "awaitSimulateRpc scenarioE_parse scenarioE_env s = (out, s1)"
    by (cases "awaitSimulateRpc scenarioE_parse scenarioE_env s")
  from scenarioE_wait [OF clean] aw have out: "out = Inr (Some res)" and r1: "result s1 = result s"
    by (simp_all add: res_def)
  have data: "truthy (ar_data res)" "\<not> truthyO (getProp (ar_data res) ''error'')"
    "parseSimulateResult scenarioE_parse (\<lambda>s. None) (ar_data res)
       = Some (JObj [(''code'', JNum 5), (''raw_log'', JStr ''insufficient funds'')])"
    "ar_success res"
    by (simp_all add: res_def capturedResult_def decodeCaptured_def simulateResponse_def
        parseSimulateResult_def)
  have hs: "fst (handleSimulateRpcResponse scenarioE_parse (\<lambda>s. None) 11501 (result s1) res)"
    "error (snd (handleSimulateRpcResponse scenarioE_parse (\<lambda>s. None) 11501 (result s1) res))
       = Some ''Transaction simulation failed: insufficient funds''"
    using simulate_nonzero_code [OF data(1,2,3), of "JNum 5" 11501 "result s1"] by simp_all
  define s7 where "s7 = s1\<lparr>result :=
      (snd (handleSimulateRpcResponse scenarioE_parse (\<lambda>s. None) 11501 (result s1) res))
        \<lparr>testProgress := Some SignTested, routePass := Some True, success := Some False\<rparr>\<rparr>"
  have handledAt: "prev_simulateHandledAt scenarioE_env = 11501"
    by (simp add: scenarioE_env_def)
  have sub: "submitRoute scenarioE_parse (\<lambda>s. None) scenarioE_env s = (Inr False, s7)"
    using hs(1) data(4)
    by (simp add: submitRoute_def aw out Let_def s7_def handledAt)
  have stage: "previewAndSubmitRoute scenarioE_parse (\<lambda>s. None) ''0'' scenarioE_env s6 = (Inr False, s7)"
    by (simp add: previewAndSubmitRoute_def pv sub)
  have "bridgeFlow ''0'' scenarioE_stages (initialState 1000 newHarness) =
           (Inr \<lparr>fo_success = Some False, fo_testProgress = Some routeTested,
                 fo_routePass = Some False\<rparr>, s7)"
    by (rule bridgeFlow_submit_refused [where ?s3.0 = s6 and ?s4.0 = s6 and ?s5.0 = s6
          and ?s6.0 = s6])
       (simp_all add: scenarioE_stages_def passStage_def passUnit_def s6_def [symmetric] stage)
  then have final: "performBridgeOperation ''0'' 1000 12000 12000 12000 scenarioE_stages newHarness =
      s7\<lparr>result := finalizeResult 12000 12000 12000 (result s7)
           (Some \<lparr>fo_success = Some False, fo_testProgress = Some routeTested,
                 fo_routePass = Some False\<rparr>)\<rparr>"
    by (simp add: performBridgeOperation_def)
  show ?thesis
    unfolding s6_def [symmetric] stage final
    using hs(2) by (simp add: s7_def)
qed

end
